theory Spec2Isabelle
  imports Main "HOL-Library.Word"
begin

unbundle bit_operations_syntax

section \<open>Strings\<close>

text \<open>
  A JavaScript string is a sequence of UTF-16 code units. A regular expression without
  the \<^verbatim>\<open>u\<close> flag, \<^verbatim>\<open>startsWith\<close> and \<^verbatim>\<open>slice\<close> all work on code units.
  \<open>js\<close> writes an ASCII literal as code units.
\<close>

type_synonym jschar = "16 word"
type_synonym jsstring = "jschar list"

definition js :: "string \<Rightarrow> jsstring" where
  "js s = map (\<lambda>c. of_nat (of_char c)) s"

definition backtick :: jschar where "backtick = 0x60"
definition lbrace :: jschar where "lbrace = 0x7B"
definition rbrace :: jschar where "rbrace = 0x7D"

text \<open>
  The class \<^verbatim>\<open>\s\<close> of an ECMAScript regular expression: WhiteSpace and LineTerminator
  (TAB, LF, VT, FF, CR, SP, NBSP, U+1680, U+2000 to U+200A, U+2028, U+2029, U+202F,
  U+205F, U+3000, U+FEFF).
\<close>

definition is_space :: "jschar \<Rightarrow> bool" where
  "is_space c \<longleftrightarrow>
     c \<in> {0x09, 0x0A, 0x0B, 0x0C, 0x0D, 0x20, 0xA0, 0x1680, 0x2028, 0x2029, 0x202F,
          0x205F, 0x3000, 0xFEFF}
     \<or> (0x2000 \<le> c \<and> c \<le> 0x200A)"

text \<open>The class \<^verbatim>\<open>[\s\S]\<close>: every code unit.\<close>

definition any_char :: "jschar \<Rightarrow> bool" where
  "any_char c \<longleftrightarrow> is_space c \<or> \<not> is_space c"

section \<open>The regular expression of the bridge\<close>

text \<open>
  \<^verbatim>\<open>analysisText.match(/```json\s*([\s\S]+?)\s*```|({[\s\S]+})/)\<close>

  The pieces of the pattern are backtracking matchers in continuation-passing style, in
  the priority order of ECMAScript: a matcher takes the continuation \<open>k\<close> for the rest of
  the pattern and the remaining input, and returns the first success. A greedy
  quantifier tries the longest repetition first, a lazy one the shortest first.
\<close>

text \<open>A literal run of characters.\<close>

fun lit :: "jsstring \<Rightarrow> (jsstring \<Rightarrow> 'a option) \<Rightarrow> jsstring \<Rightarrow> 'a option" where
  "lit [] k s = k s"
| "lit (c # cs) k [] = None"
| "lit (c # cs) k (d # ds) = (if c = d then lit cs k ds else None)"

text \<open>\<^verbatim>\<open>p*\<close>, greedy, for a character class \<open>p\<close>.\<close>

fun star_greedy :: "(jschar \<Rightarrow> bool) \<Rightarrow> (jsstring \<Rightarrow> 'a option) \<Rightarrow> jsstring \<Rightarrow> 'a option" where
  "star_greedy p k [] = k []"
| "star_greedy p k (c # cs) =
     (if p c then (case star_greedy p k cs of Some r \<Rightarrow> Some r | None \<Rightarrow> k (c # cs))
      else k (c # cs))"

text \<open>
  \<^verbatim>\<open>(p+?)\<close>, lazy and capturing: \<open>acc\<close> is what the group has taken so far, and the
  continuation receives the capture and the rest.
\<close>

fun plus_lazy ::
  "(jschar \<Rightarrow> bool) \<Rightarrow> (jsstring \<Rightarrow> jsstring \<Rightarrow> 'a option) \<Rightarrow> jsstring \<Rightarrow> jsstring \<Rightarrow> 'a option" where
  "plus_lazy p k acc [] = None"
| "plus_lazy p k acc (c # cs) =
     (if p c then (case k (acc @ [c]) cs of Some r \<Rightarrow> Some r | None \<Rightarrow> plus_lazy p k (acc @ [c]) cs)
      else None)"

text \<open>\<^verbatim>\<open>p+\<close>, greedy, with what it has taken handed to the continuation.\<close>

fun plus_greedy ::
  "(jschar \<Rightarrow> bool) \<Rightarrow> (jsstring \<Rightarrow> jsstring \<Rightarrow> 'a option) \<Rightarrow> jsstring \<Rightarrow> jsstring \<Rightarrow> 'a option" where
  "plus_greedy p k acc [] = None"
| "plus_greedy p k acc (c # cs) =
     (if p c then (case plus_greedy p k (acc @ [c]) cs of Some r \<Rightarrow> Some r | None \<Rightarrow> k (acc @ [c]) cs)
      else None)"

text \<open>
  First alternative, \<^verbatim>\<open>```json\s*([\s\S]+?)\s*```\<close>, tried at the start of \<open>s\<close>: the result
  is capture group 1.
\<close>

definition fence_alt :: "jsstring \<Rightarrow> jsstring option" where
  "fence_alt =
     lit (js ''```json'')
       (star_greedy is_space
         (plus_lazy any_char
           (\<lambda>g. star_greedy is_space (lit (js ''```'') (\<lambda>_. Some g))) []))"

text \<open>
  Second alternative, \<^verbatim>\<open>({[\s\S]+})\<close>, tried at the start of \<open>s\<close>: the result is capture
  group 2, which includes both braces.
\<close>

definition brace_alt :: "jsstring \<Rightarrow> jsstring option" where
  "brace_alt =
     lit [lbrace]
       (plus_greedy any_char (\<lambda>g. lit [rbrace] (\<lambda>_. Some (lbrace # g @ [rbrace]))) [])"

text \<open>
  The captures \<^verbatim>\<open>(match[1], match[2])\<close> of a match starting exactly at the start of \<open>s\<close>:
  the left alternative has priority, and the group of the alternative not taken is
  \<^verbatim>\<open>undefined\<close>.
\<close>

definition match_here :: "jsstring \<Rightarrow> (jsstring option \<times> jsstring option) option" where
  "match_here s =
     (case fence_alt s of
        Some g \<Rightarrow> Some (Some g, None)
      | None \<Rightarrow> (case brace_alt s of Some g \<Rightarrow> Some (None, Some g) | None \<Rightarrow> None))"

text \<open>
  \<^verbatim>\<open>String.prototype.match\<close> with a non-global pattern: the match at the leftmost start
  index that has one, or \<^verbatim>\<open>null\<close>.
\<close>

fun str_match :: "jsstring \<Rightarrow> (jsstring option \<times> jsstring option) option" where
  "str_match [] = match_here []"
| "str_match (c # cs) =
     (case match_here (c # cs) of Some m \<Rightarrow> Some m | None \<Rightarrow> str_match cs)"

text \<open>\<^verbatim>\<open>a || b\<close> on values that are a string or \<^verbatim>\<open>undefined\<close>: the empty string is falsy.\<close>

definition js_or :: "jsstring option \<Rightarrow> jsstring option \<Rightarrow> jsstring option" where
  "js_or a b = (case a of Some s \<Rightarrow> (if s \<noteq> [] then Some s else b) | None \<Rightarrow> b)"

text \<open>
  \<^verbatim>\<open>let jsonString = analysisText; if (match) { jsonString = match[1] || match[2]; }\<close>
\<close>

definition jsonString :: "jsstring \<Rightarrow> jsstring option" where
  "jsonString analysisText =
     (case str_match analysisText of
        None \<Rightarrow> Some analysisText
      | Some (g1, g2) \<Rightarrow> js_or g1 g2)"

section \<open>Values\<close>

text \<open>
  A JSON value, as \<^verbatim>\<open>request.json()\<close> and \<^verbatim>\<open>JSON.parse\<close> produce it. The type of numbers
  is a parameter: the bridge never computes with a number, it only tests one for
  truthiness. An object is the list of its own properties; should a key stand in the list
  more than once, the object has the last of its values.
\<close>

datatype 'n json =
    JNull
  | JBool bool
  | JNumber 'n
  | JString jsstring
  | JArray "'n json list"
  | JObject "(jsstring \<times> 'n json) list"

text \<open>
  A JavaScript number at run time is an IEEE 754 binary64 value. Where the code tests a
  number (the request), it is given by its 64 bits.
\<close>

type_synonym double = "64 word"

definition double_is_zero :: "double \<Rightarrow> bool" where
  "double_is_zero d \<longleftrightarrow> d AND 0x7FFFFFFFFFFFFFFF = 0"

definition double_is_nan :: "double \<Rightarrow> bool" where
  "double_is_nan d \<longleftrightarrow>
     d AND 0x7FF0000000000000 = 0x7FF0000000000000 \<and> d AND 0x000FFFFFFFFFFFFF \<noteq> 0"

text \<open>
  Where a number is only read from a text and written back (the reply of the model), it is
  given by what decides how it is written: the number is infinite, it is negative zero,
  or it is another finite number, which is kept as the literal that denotes it.
\<close>

datatype js_number = Literal jsstring | Infinity | MinusInfinity | MinusZero

text \<open>\<^verbatim>\<open>v[key]\<close> for an object with the members \<open>kvs\<close>; \<open>None\<close> is \<^verbatim>\<open>undefined\<close>.\<close>

definition get_property :: "(jsstring \<times> 'n json) list \<Rightarrow> jsstring \<Rightarrow> 'n json option" where
  "get_property kvs key = map_of (rev kvs) key"

text \<open>\<^verbatim>\<open>ToBoolean\<close>; \<open>None\<close> is \<^verbatim>\<open>undefined\<close>.\<close>

fun truthy :: "double json option \<Rightarrow> bool" where
  "truthy None = False"
| "truthy (Some JNull) = False"
| "truthy (Some (JBool b)) = b"
| "truthy (Some (JNumber d)) = (\<not> double_is_zero d \<and> \<not> double_is_nan d)"
| "truthy (Some (JString s)) = (s \<noteq> [])"
| "truthy (Some (JArray xs)) = True"
| "truthy (Some (JObject kvs)) = True"

text \<open>
  What a \<^verbatim>\<open>throw\<close> or a rejected promise carries: an \<^verbatim>\<open>Error\<close> instance with its message,
  a \<^verbatim>\<open>TypeError\<close> raised by the engine itself (an \<^verbatim>\<open>Error\<close> instance whose message is the
  engine's), or any other value.
\<close>

datatype type_error = DestructureNull | NotAFunction | ReadPropertyOfNull

datatype thrown =
    ErrorInstance jsstring
  | EngineTypeError type_error
  | OtherThrown "double json"

section \<open>The analysis bridge\<close>

text \<open>
  The handler \<^verbatim>\<open>POST\<close> of the route. Its calls of \<^verbatim>\<open>console.log\<close> and \<^verbatim>\<open>console.error\<close> write to
  the log only and are left out. The bodies it hands to \<^verbatim>\<open>NextResponse.json\<close>:
\<close>

datatype details = Message jsstring | EngineMessage type_error | ThrownValue "double json"

datatype 'v body =
    ErrorBody jsstring                  \<comment> \<open>\<^verbatim>\<open>{ error }\<close>\<close>
  | ParseFailureBody jsstring jsstring  \<comment> \<open>\<^verbatim>\<open>{ error, raw }\<close>\<close>
  | FailureBody jsstring details        \<comment> \<open>\<^verbatim>\<open>{ error, details }\<close>\<close>
  | AnalysisBody 'v                     \<comment> \<open>the parsed value, serialised\<close>

record 'v response =
  status :: nat
  body :: "'v body"

text \<open>The part of the chat completion the bridge reads.\<close>

record message =
  content :: "jsstring option"

record choice =
  message :: "message option"

record completion =
  choices :: "choice list"

text \<open>
  \<^verbatim>\<open>const { image } = await request.json()\<close> once the promise has resolved with \<open>v\<close>:
  destructuring \<^verbatim>\<open>null\<close> throws, a value without the property gives \<^verbatim>\<open>undefined\<close>.
\<close>

fun destructure_image :: "double json \<Rightarrow> thrown + double json option" where
  "destructure_image JNull = Inl (EngineTypeError DestructureNull)"
| "destructure_image (JObject kvs) = Inr (get_property kvs (js ''image''))"
| "destructure_image v = Inr None"

text \<open>
  \<^verbatim>\<open>image.slice(0, 100)\<close> is a call of a method that strings and arrays have; on any other
  truthy value \<^verbatim>\<open>image.slice\<close> is not a function and the call throws.
\<close>

fun has_slice :: "double json \<Rightarrow> bool" where
  "has_slice (JString s) = True"
| "has_slice (JArray xs) = True"
| "has_slice v = False"

text \<open>\<^verbatim>\<open>response.choices[0]?.message?.content\<close>\<close>

definition analysisText_of :: "completion \<Rightarrow> jsstring option" where
  "analysisText_of response =
     (case choices response of
        [] \<Rightarrow> None
      | c # _ \<Rightarrow> (case message c of None \<Rightarrow> None | Some m \<Rightarrow> content m))"

text \<open>
  The argument of \<^verbatim>\<open>JSON.parse\<close> is converted to a string first; \<^verbatim>\<open>undefined\<close> becomes
  the text \<^verbatim>\<open>undefined\<close>.
\<close>

definition to_string :: "jsstring option \<Rightarrow> jsstring" where
  "to_string x = (case x of None \<Rightarrow> js ''undefined'' | Some s \<Rightarrow> s)"

text \<open>
  Lines 56 to 73: select the string to parse, parse it, answer. \<open>parse\<close> stands for
  \<^verbatim>\<open>JSON.parse\<close>, with \<open>None\<close> for a thrown \<^verbatim>\<open>SyntaxError\<close>. \<open>stringify\<close> stands for the
  serialisation of the parsed value that \<^verbatim>\<open>NextResponse.json(analysis)\<close> puts into the body, as
  the reader of the body receives it. The strings of the other bodies are written and
  read back as they are.
\<close>

definition parse_reply ::
  "(jsstring \<Rightarrow> 'v option) \<Rightarrow> ('v \<Rightarrow> 'b) \<Rightarrow> jsstring \<Rightarrow> 'b response" where
  "parse_reply parse stringify analysisText =
     (case parse (to_string (jsonString analysisText)) of
        Some analysis \<Rightarrow> \<lparr>status = 200, body = AnalysisBody (stringify analysis)\<rparr>
      | None \<Rightarrow>
          \<lparr>status = 500,
           body = ParseFailureBody (js ''Failed to parse analysis response'') analysisText\<rparr>)"

text \<open>
  The body of the outer \<^verbatim>\<open>try\<close>, with \<open>img\<close> for the variable \<^verbatim>\<open>image\<close>. \<open>create\<close> stands for the call
  \<^verbatim>\<open>openai.chat.completions.create\<close> as a function of the image it is sent, \<open>request_json\<close>
  is the outcome of \<^verbatim>\<open>await request.json()\<close>. The result is what the block returns or
  throws, and the list of images sent to the external model.
\<close>

definition POST_try ::
  "(jsstring \<Rightarrow> 'v option) \<Rightarrow> ('v \<Rightarrow> 'b) \<Rightarrow> (double json \<Rightarrow> thrown + completion)
     \<Rightarrow> thrown + double json \<Rightarrow> (thrown + 'b response) \<times> double json list" where
  "POST_try parse stringify create request_json =
     (case request_json of
        Inl e \<Rightarrow> (Inl e, [])
      | Inr v \<Rightarrow>
          (case destructure_image v of
             Inl e \<Rightarrow> (Inl e, [])
           | Inr None \<Rightarrow> (Inr \<lparr>status = 400, body = ErrorBody (js ''No image provided'')\<rparr>, [])
           | Inr (Some img) \<Rightarrow>
               if \<not> truthy (Some img)
               then (Inr \<lparr>status = 400, body = ErrorBody (js ''No image provided'')\<rparr>, [])
               else if \<not> has_slice img then (Inl (EngineTypeError NotAFunction), [])
               else
                 (case create img of
                    Inl e \<Rightarrow> (Inl e, [img])
                  | Inr response \<Rightarrow>
                      (case analysisText_of response of
                         None \<Rightarrow> (Inl (ErrorInstance (js ''No analysis received from GPT'')), [img])
                       | Some analysisText \<Rightarrow>
                           if analysisText = []
                           then (Inl (ErrorInstance (js ''No analysis received from GPT'')), [img])
                           else (Inr (parse_reply parse stringify analysisText), [img])))))"

text \<open>\<^verbatim>\<open>error instanceof Error ? error.message : error\<close>\<close>

fun details_of :: "thrown \<Rightarrow> details" where
  "details_of (ErrorInstance m) = Message m"
| "details_of (EngineTypeError t) = EngineMessage t"
| "details_of (OtherThrown v) = ThrownValue v"

text \<open>The handler: the \<^verbatim>\<open>try\<close> block under its \<^verbatim>\<open>catch\<close>.\<close>

definition POST ::
  "(jsstring \<Rightarrow> 'v option) \<Rightarrow> ('v \<Rightarrow> 'b) \<Rightarrow> (double json \<Rightarrow> thrown + completion)
     \<Rightarrow> thrown + double json \<Rightarrow> 'b response \<times> double json list" where
  "POST parse stringify create request_json =
     (case POST_try parse stringify create request_json of
        (Inl e, calls) \<Rightarrow>
          (\<lparr>status = 500, body = FailureBody (js ''Failed to analyze food image'') (details_of e)\<rparr>,
           calls)
      | (Inr r, calls) \<Rightarrow> (r, calls))"

section \<open>A reference reading and writing of JSON texts\<close>

text \<open>
  \<^verbatim>\<open>JSON.parse\<close> belongs to the platform, and every general statement below holds for any
  function in its place. To run the bridge on concrete replies, this is a reader for the
  JSON grammar (ECMA-404): white space is TAB, LF, CR and SP, and a string may not contain
  a raw control character. A number literal is rounded to the nearest binary64 value, so
  that a large one becomes infinite and a small negative one becomes negative zero. An
  object gets its properties one by one, a later value for a key replacing the earlier
  one, and lists them as the platform enumerates them: the keys that are array indices
  first, in ascending order, then the others in the order they were created. The nesting
  is followed with a counter that starts at twice the length of the text, which a text of
  that length cannot use up.
\<close>

definition is_json_ws :: "jschar \<Rightarrow> bool" where
  "is_json_ws c \<longleftrightarrow> c = 0x09 \<or> c = 0x0A \<or> c = 0x0D \<or> c = 0x20"

definition skip_ws :: "jsstring \<Rightarrow> jsstring" where
  "skip_ws s = dropWhile is_json_ws s"

definition is_digit :: "jschar \<Rightarrow> bool" where
  "is_digit c \<longleftrightarrow> 0x30 \<le> c \<and> c \<le> 0x39"

definition hex_value :: "jschar \<Rightarrow> jschar option" where
  "hex_value c =
     (if 0x30 \<le> c \<and> c \<le> 0x39 then Some (c - 0x30)
      else if 0x41 \<le> c \<and> c \<le> 0x46 then Some (c - 0x37)
      else if 0x61 \<le> c \<and> c \<le> 0x66 then Some (c - 0x57)
      else None)"

definition hex4 :: "jschar \<Rightarrow> jschar \<Rightarrow> jschar \<Rightarrow> jschar \<Rightarrow> jschar option" where
  "hex4 a b c d =
     (case (hex_value a, hex_value b, hex_value c, hex_value d) of
        (Some w, Some x, Some y, Some z) \<Rightarrow> Some (w * 0x1000 + x * 0x100 + y * 0x10 + z)
      | _ \<Rightarrow> None)"

text \<open>The character a one-letter escape stands for.\<close>

definition escape_char :: "jschar \<Rightarrow> jschar option" where
  "escape_char e =
     (if e = 0x22 then Some 0x22 else if e = 0x5C then Some 0x5C else if e = 0x2F then Some 0x2F
      else if e = 0x62 then Some 0x08 else if e = 0x66 then Some 0x0C
      else if e = 0x6E then Some 0x0A else if e = 0x72 then Some 0x0D
      else if e = 0x74 then Some 0x09 else None)"

text \<open>The characters of a string after its opening quote, up to the closing quote.\<close>

fun string_chars :: "jsstring \<Rightarrow> jsstring \<Rightarrow> (jsstring \<times> jsstring) option" where
  "string_chars acc [] = None"
| "string_chars acc (c # cs) =
     (if c = 0x22 then Some (acc, cs)
      else if c = 0x5C then
        (case cs of
           [] \<Rightarrow> None
         | e # es \<Rightarrow>
             if e = 0x75 then
               (case es of
                  h1 # h2 # h3 # h4 # r \<Rightarrow>
                    (case hex4 h1 h2 h3 h4 of
                       Some u \<Rightarrow> string_chars (acc @ [u]) r
                     | None \<Rightarrow> None)
                | _ \<Rightarrow> None)
             else
               (case escape_char e of
                  Some x \<Rightarrow> string_chars (acc @ [x]) es
                | None \<Rightarrow> None))
      else if c < 0x20 then None
      else string_chars (acc @ [c]) cs)"

text \<open>A run of one or more digits.\<close>

definition digits1 :: "jsstring \<Rightarrow> (jsstring \<times> jsstring) option" where
  "digits1 s =
     (let ds = takeWhile is_digit s in if ds = [] then None else Some (ds, dropWhile is_digit s))"

text \<open>
  \<^verbatim>\<open>-? (0 | [1-9][0-9]*) (. [0-9]+)? ([eE] [+-]? [0-9]+)?\<close>: the literal and the rest.
\<close>

definition number_literal :: "jsstring \<Rightarrow> (jsstring \<times> jsstring) option" where
  "number_literal s =
     (let (sign, s1) = (case s of c # cs \<Rightarrow> if c = 0x2D then ([c], cs) else ([], s) | [] \<Rightarrow> ([], s))
      in case s1 of
           [] \<Rightarrow> None
         | d # ds \<Rightarrow>
             if \<not> is_digit d then None
             else
               let (ip, s2) = (if d = 0x30 then ([d], ds) else (d # takeWhile is_digit ds, dropWhile is_digit ds));
                   (fp, s3) =
                     (case s2 of
                        p # ps \<Rightarrow>
                          if p = 0x2E then
                            (case digits1 ps of Some (f, r) \<Rightarrow> (Some (p # f), r) | None \<Rightarrow> (None, s2))
                          else (Some [], s2)
                      | [] \<Rightarrow> (Some [], s2))
               in case fp of
                    None \<Rightarrow> None
                  | Some f \<Rightarrow>
                      (case s3 of
                         e # es \<Rightarrow>
                           if e = 0x65 \<or> e = 0x45 then
                             (let (sg, s4) =
                                (case es of
                                   g # gs \<Rightarrow> if g = 0x2B \<or> g = 0x2D then ([g], gs) else ([], es)
                                 | [] \<Rightarrow> ([], es))
                              in case digits1 s4 of
                                   Some (x, r) \<Rightarrow> Some (sign @ ip @ f @ [e] @ sg @ x, r)
                                 | None \<Rightarrow> None)
                           else Some (sign @ ip @ f, s3)
                       | [] \<Rightarrow> Some (sign @ ip @ f, s3)))"

text \<open>The value of a run of digits.\<close>

definition digits_value :: "jsstring \<Rightarrow> nat" where
  "digits_value ds = foldl (\<lambda>a d. 10 * a + unat (d - 0x30)) 0 ds"

text \<open>
  The magnitude \<open>m * 10 ^ e\<close> rounds to infinity from half way between the largest finite
  binary64 value and \<open>2 ^ 1024\<close> on, and to zero up to half the smallest positive value,
  \<open>2 ^ - 1075\<close> (the ties go to the even neighbour).
\<close>

definition overflow_bound :: nat where
  "overflow_bound = 2 ^ 1024 - 2 ^ 970"

definition magnitude_overflows :: "nat \<Rightarrow> int \<Rightarrow> bool" where
  "magnitude_overflows m e \<longleftrightarrow>
     (if 0 \<le> e then overflow_bound \<le> m * 10 ^ nat e else overflow_bound * 10 ^ nat (- e) \<le> m)"

definition magnitude_vanishes :: "nat \<Rightarrow> int \<Rightarrow> bool" where
  "magnitude_vanishes m e \<longleftrightarrow> m = 0 \<or> (e < 0 \<and> m * 2 ^ 1075 \<le> 10 ^ nat (- e))"

text \<open>The number a literal of the grammar above denotes.\<close>

definition to_number :: "jsstring \<Rightarrow> js_number" where
  "to_number l =
     (let negative = (case l of c # _ \<Rightarrow> c = 0x2D | [] \<Rightarrow> False);
          l1 = (if negative then tl l else l);
          ip = takeWhile is_digit l1;
          r1 = dropWhile is_digit l1;
          fp = (case r1 of c # r \<Rightarrow> if c = 0x2E then takeWhile is_digit r else [] | [] \<Rightarrow> []);
          r2 = (case r1 of c # r \<Rightarrow> if c = 0x2E then dropWhile is_digit r else r1 | [] \<Rightarrow> []);
          ex = (case r2 of
                  [] \<Rightarrow> 0
                | e # r \<Rightarrow>
                    (case r of
                       [] \<Rightarrow> 0
                     | g # gs \<Rightarrow>
                         if g = 0x2D then - int (digits_value gs)
                         else if g = 0x2B then int (digits_value gs)
                         else int (digits_value r)));
          m = digits_value (ip @ fp);
          e10 = ex - int (length fp)
      in if magnitude_overflows m e10 then (if negative then MinusInfinity else Infinity)
         else if negative \<and> magnitude_vanishes m e10 then MinusZero
         else Literal l)"

text \<open>
  Giving an object the property \<open>k\<close> with the value \<open>v\<close>: the value of an existing property
  is replaced where it stands, a new property comes last.
\<close>

fun define_property ::
  "jsstring \<Rightarrow> 'n json \<Rightarrow> (jsstring \<times> 'n json) list \<Rightarrow> (jsstring \<times> 'n json) list" where
  "define_property k v [] = [(k, v)]"
| "define_property k v ((k', v') # kvs) =
     (if k' = k then (k, v) # kvs else (k', v') # define_property k v kvs)"

text \<open>
  A key is an array index when it is the decimal numeral, without a leading zero, of a
  number below \<open>2 ^ 32 - 1\<close>.
\<close>

definition array_index :: "jsstring \<Rightarrow> nat option" where
  "array_index k =
     (if k \<noteq> [] \<and> list_all is_digit k \<and> (length k = 1 \<or> hd k \<noteq> 0x30)
         \<and> digits_value k < 2 ^ 32 - 1
      then Some (digits_value k) else None)"

definition enumeration_order :: "(jsstring \<times> 'n json) list \<Rightarrow> (jsstring \<times> 'n json) list" where
  "enumeration_order kvs =
     sort_key (\<lambda>(k, v). case array_index k of Some i \<Rightarrow> i | None \<Rightarrow> 0)
       (filter (\<lambda>(k, v). array_index k \<noteq> None) kvs)
     @ filter (\<lambda>(k, v). array_index k = None) kvs"

text \<open>A keyword at the start of the input.\<close>

definition keyword :: "jsstring \<Rightarrow> jsstring \<Rightarrow> jsstring option" where
  "keyword w s = (if take (length w) s = w then Some (drop (length w) s) else None)"

fun json_value :: "nat \<Rightarrow> jsstring \<Rightarrow> (js_number json \<times> jsstring) option"
  and json_elements ::
    "nat \<Rightarrow> js_number json list \<Rightarrow> jsstring \<Rightarrow> (js_number json \<times> jsstring) option"
  and json_members ::
    "nat \<Rightarrow> (jsstring \<times> js_number json) list \<Rightarrow> jsstring \<Rightarrow> (js_number json \<times> jsstring) option"
where
  "json_value 0 s = None"
| "json_value (Suc n) s =
     (case s of
        [] \<Rightarrow> None
      | c # cs \<Rightarrow>
          if c = 0x7B then
            (case skip_ws cs of
               [] \<Rightarrow> None
             | d # ds \<Rightarrow> if d = 0x7D then Some (JObject [], ds) else json_members n [] (d # ds))
          else if c = 0x5B then
            (case skip_ws cs of
               [] \<Rightarrow> None
             | d # ds \<Rightarrow> if d = 0x5D then Some (JArray [], ds) else json_elements n [] (d # ds))
          else if c = 0x22 then
            (case string_chars [] cs of Some (str, r) \<Rightarrow> Some (JString str, r) | None \<Rightarrow> None)
          else if c = 0x74 then
            (case keyword (js ''true'') s of Some r \<Rightarrow> Some (JBool True, r) | None \<Rightarrow> None)
          else if c = 0x66 then
            (case keyword (js ''false'') s of Some r \<Rightarrow> Some (JBool False, r) | None \<Rightarrow> None)
          else if c = 0x6E then
            (case keyword (js ''null'') s of Some r \<Rightarrow> Some (JNull, r) | None \<Rightarrow> None)
          else
            (case number_literal s of
               Some (l, r) \<Rightarrow> Some (JNumber (to_number l), r)
             | None \<Rightarrow> None))"
| "json_elements 0 acc s = None"
| "json_elements (Suc n) acc s =
     (case json_value n s of
        None \<Rightarrow> None
      | Some (v, r) \<Rightarrow>
          (case skip_ws r of
             [] \<Rightarrow> None
           | d # ds \<Rightarrow>
               if d = 0x2C then json_elements n (acc @ [v]) (skip_ws ds)
               else if d = 0x5D then Some (JArray (acc @ [v]), ds)
               else None))"
| "json_members 0 acc s = None"
| "json_members (Suc n) acc s =
     (case s of
        [] \<Rightarrow> None
      | q # qs \<Rightarrow>
          if q \<noteq> 0x22 then None
          else
            (case string_chars [] qs of
               None \<Rightarrow> None
             | Some (key, r) \<Rightarrow>
                 (case skip_ws r of
                    [] \<Rightarrow> None
                  | c # cs \<Rightarrow>
                      if c \<noteq> 0x3A then None
                      else
                        (case json_value n (skip_ws cs) of
                           None \<Rightarrow> None
                         | Some (v, r') \<Rightarrow>
                             (case skip_ws r' of
                                [] \<Rightarrow> None
                              | d # ds \<Rightarrow>
                                  if d = 0x2C
                                  then json_members n (define_property key v acc) (skip_ws ds)
                                  else if d = 0x7D
                                  then Some (JObject (enumeration_order (define_property key v acc)), ds)
                                  else None)))))"

text \<open>The whole text must be one value between optional white space.\<close>

definition JSON_parse :: "jsstring \<Rightarrow> js_number json option" where
  "JSON_parse text =
     (case json_value (2 * length text + 2) (skip_ws text) of
        None \<Rightarrow> None
      | Some (v, r) \<Rightarrow> if skip_ws r = [] then Some v else None)"

text \<open>
  \<^verbatim>\<open>JSON.stringify\<close> belongs to the platform as well. This is what it does to a value that
  \<^verbatim>\<open>JSON.parse\<close> has made, given as the value that the text it writes denotes: a number that
  is not finite is written as \<^verbatim>\<open>null\<close>, negative zero is written as \<^verbatim>\<open>0\<close>, every other number
  is written so that it reads back as the same number, and strings, arrays and objects
  keep their characters, elements and properties, in their order.
\<close>

fun written_number :: "js_number \<Rightarrow> js_number json" where
  "written_number (Literal l) = JNumber (Literal l)"
| "written_number MinusZero = JNumber (Literal (js ''0''))"
| "written_number Infinity = JNull"
| "written_number MinusInfinity = JNull"

primrec JSON_written :: "js_number json \<Rightarrow> js_number json" where
  "JSON_written JNull = JNull"
| "JSON_written (JBool b) = JBool b"
| "JSON_written (JNumber n) = written_number n"
| "JSON_written (JString s) = JString s"
| "JSON_written (JArray xs) = JArray (map JSON_written xs)"
| "JSON_written (JObject kvs) = JObject (map (map_prod id JSON_written) kvs)"

text \<open>The values without an infinite number and without negative zero.\<close>

fun is_literal :: "js_number \<Rightarrow> bool" where
  "is_literal (Literal l) = True"
| "is_literal n = False"

fun plain :: "js_number json \<Rightarrow> bool" where
  "plain (JNumber n) = is_literal n"
| "plain (JArray xs) = (\<forall>x\<in>set xs. plain x)"
| "plain (JObject kvs) = (\<forall>x\<in>set (map snd kvs). plain x)"
| "plain v = True"

section \<open>The capture and upload client\<close>

text \<open>
  What the page reads of a \<^verbatim>\<open>File\<close>: its MIME type, its size in bytes, and \<open>data_url\<close>, the
  string \<^verbatim>\<open>FileReader.readAsDataURL\<close> produces for it.
\<close>

record jsfile =
  ftype :: jsstring
  fsize :: nat
  data_url :: jsstring

text \<open>
  A message shown in the error banner: a text, the string conversion of a value that is
  not a string (\<^verbatim>\<open>new Error(v)\<close>), or the engine's text for a \<^verbatim>\<open>TypeError\<close> it raised.
\<close>

datatype error_message = Text jsstring | ToStringOf "double json" | EngineText type_error

text \<open>The state of the component \<^verbatim>\<open>Home\<close>; \<open>None\<close> is \<^verbatim>\<open>null\<close>.\<close>

record client =
  selectedImage :: "jsstring option"
  analysisResult :: "double json option"
  isAnalyzing :: bool
  error :: "error_message option"
  showCamera :: bool
  mounted :: bool

text \<open>\<^verbatim>\<open>s.startsWith(p)\<close> and \<^verbatim>\<open>s.includes(p)\<close>\<close>

definition startsWith :: "jsstring \<Rightarrow> jsstring \<Rightarrow> bool" where
  "startsWith s p \<longleftrightarrow> take (length p) s = p"

fun str_includes :: "jsstring \<Rightarrow> jsstring \<Rightarrow> bool" where
  "str_includes [] p \<longleftrightarrow> p = []"
| "str_includes (c # cs) p \<longleftrightarrow> startsWith (c # cs) p \<or> str_includes cs p"

text \<open>
  \<^verbatim>\<open>handleImageUpload\<close>, up to the start of the read: the new state, and the file handed to
  \<^verbatim>\<open>reader.readAsDataURL\<close> if one is. The argument is \<^verbatim>\<open>event.target.files?.[0]\<close>.
\<close>

definition handleImageUpload :: "jsfile option \<Rightarrow> client \<Rightarrow> client \<times> jsfile option" where
  "handleImageUpload chosen s =
     (case chosen of
        None \<Rightarrow> (s, None)
      | Some f \<Rightarrow>
          if \<not> startsWith (ftype f) (js ''image/'')
          then (s\<lparr>error := Some (Text (js ''Please select an image file''))\<rparr>, None)
          else if fsize f > 5 * 1024 * 1024
          then (s\<lparr>error := Some (Text (js ''Image size should be less than 5MB''))\<rparr>, None)
          else (s, Some f))"

text \<open>\<^verbatim>\<open>reader.onload\<close>, with the string the read produced.\<close>

definition reader_onload :: "jsstring \<Rightarrow> client \<Rightarrow> client" where
  "reader_onload result s = s\<lparr>selectedImage := Some result, analysisResult := None, error := None\<rparr>"

definition handleCapture :: "client \<Rightarrow> client" where
  "handleCapture s = s\<lparr>showCamera := True\<rparr>"

text \<open>
  \<^verbatim>\<open>captureImage\<close>. The argument is \<open>None\<close> when \<^verbatim>\<open>webcamRef.current\<close> is \<^verbatim>\<open>null\<close>, and otherwise
  what \<^verbatim>\<open>getScreenshot()\<close> returns, a string or \<^verbatim>\<open>null\<close>.
\<close>

definition captureImage :: "jsstring option option \<Rightarrow> client \<Rightarrow> client" where
  "captureImage webcam s =
     (case webcam of
        None \<Rightarrow> s
      | Some None \<Rightarrow> s
      | Some (Some imageSrc) \<Rightarrow>
          if imageSrc = [] then s
          else s\<lparr>selectedImage := Some imageSrc, analysisResult := None, error := None,
                 showCamera := False\<rparr>)"

text \<open>
  \<^verbatim>\<open>handleAnalyze\<close> runs in two parts, around \<^verbatim>\<open>await fetch(...)\<close>. The first part gives the
  new state and the image of the request it sends, if it sends one.
\<close>

definition handleAnalyze_start :: "client \<Rightarrow> client \<times> jsstring option" where
  "handleAnalyze_start s =
     (case selectedImage s of
        None \<Rightarrow> (s, None)
      | Some img \<Rightarrow>
          if img = [] then (s, None)
          else (s\<lparr>isAnalyzing := True, error := None\<rparr>, Some img))"

text \<open>
  How the request ends: \<^verbatim>\<open>fetch\<close> rejects, or resolves with a response of which the page
  reads \<^verbatim>\<open>ok\<close>, the \<^verbatim>\<open>content-type\<close> header and the outcome of \<^verbatim>\<open>response.json()\<close>.
\<close>

record http_reply =
  ok :: bool
  content_type :: "jsstring option"
  json_body :: "thrown + double json"

datatype fetch_outcome = FetchRejected thrown | FetchResolved http_reply

text \<open>\<^verbatim>\<open>errorData.error\<close>: reading a property of \<^verbatim>\<open>null\<close> throws.\<close>

fun error_field :: "double json \<Rightarrow> thrown + double json option" where
  "error_field JNull = Inl (EngineTypeError ReadPropertyOfNull)"
| "error_field (JObject kvs) = Inr (get_property kvs (js ''error''))"
| "error_field v = Inr None"

text \<open>
  The \<^verbatim>\<open>try\<close> block after the \<^verbatim>\<open>await\<close>: the value of \<^verbatim>\<open>result\<close>, or the failure, which is
  either something caught as it was thrown by the platform or an \<^verbatim>\<open>Error\<close> made here with
  \<^verbatim>\<open>new Error(errorData.error || 'Failed to analyze image')\<close>.
\<close>

datatype analyze_failure = Caught thrown | NewError error_message

definition analyze_try :: "fetch_outcome \<Rightarrow> analyze_failure + double json" where
  "analyze_try outcome =
     (case outcome of
        FetchRejected e \<Rightarrow> Inl (Caught e)
      | FetchResolved r \<Rightarrow>
          if \<not> ok r then
            (case content_type r of
               None \<Rightarrow> Inl (NewError (Text (js ''Failed to analyze image'')))
             | Some contentType \<Rightarrow>
                 if contentType \<noteq> [] \<and> str_includes contentType (js ''application/json'') then
                   (case json_body r of
                      Inl e \<Rightarrow> Inl (Caught e)
                    | Inr errorData \<Rightarrow>
                        (case error_field errorData of
                           Inl e \<Rightarrow> Inl (Caught e)
                         | Inr fld \<Rightarrow>
                             if truthy fld then
                               (case fld of
                                  Some (JString m) \<Rightarrow> Inl (NewError (Text m))
                                | Some v \<Rightarrow> Inl (NewError (ToStringOf v))
                                | None \<Rightarrow> Inl (NewError (Text (js ''Failed to analyze image''))))
                             else Inl (NewError (Text (js ''Failed to analyze image'')))))
                 else Inl (NewError (Text (js ''Failed to analyze image''))))
          else
            (case json_body r of
               Inl e \<Rightarrow> Inl (Caught e)
             | Inr result \<Rightarrow> Inr result))"

text \<open>
  \<^verbatim>\<open>error instanceof Error ? error.message : 'Failed to analyze the image. Please try again.'\<close>
\<close>

fun catch_message :: "analyze_failure \<Rightarrow> error_message" where
  "catch_message (NewError m) = m"
| "catch_message (Caught (ErrorInstance m)) = Text m"
| "catch_message (Caught (EngineTypeError t)) = EngineText t"
| "catch_message (Caught (OtherThrown v)) = Text (js ''Failed to analyze the image. Please try again.'')"

text \<open>\<^verbatim>\<open>setAnalysisResult(result)\<close>: the JSON value \<^verbatim>\<open>null\<close> is the state \<^verbatim>\<open>null\<close>.\<close>

definition nullable :: "double json \<Rightarrow> double json option" where
  "nullable v = (if v = JNull then None else Some v)"

text \<open>The second part of \<^verbatim>\<open>handleAnalyze\<close>: \<^verbatim>\<open>try\<close>, \<^verbatim>\<open>catch\<close> and \<^verbatim>\<open>finally\<close>.\<close>

definition handleAnalyze_resume :: "fetch_outcome \<Rightarrow> client \<Rightarrow> client" where
  "handleAnalyze_resume outcome s =
     (case analyze_try outcome of
        Inr result \<Rightarrow> s\<lparr>analysisResult := nullable result\<rparr>
      | Inl e \<Rightarrow> s\<lparr>error := Some (catch_message e)\<rparr>)
     \<lparr>isAnalyzing := False\<rparr>"

text \<open>
  The button \<^verbatim>\<open>Analyze Food\<close> is rendered under \<^verbatim>\<open>{selectedImage && ...}\<close> with
  \<^verbatim>\<open>disabled={isAnalyzing}\<close>, and nothing is rendered before the component has mounted.
\<close>

definition analyze_enabled :: "client \<Rightarrow> bool" where
  "analyze_enabled s \<longleftrightarrow>
     mounted s \<and> (case selectedImage s of None \<Rightarrow> False | Some img \<Rightarrow> img \<noteq> []) \<and> \<not> isAnalyzing s"

subsection \<open>The page in its environment\<close>

text \<open>
  The page together with what is under way outside it: the files \<^verbatim>\<open>FileReader\<close> is still
  reading, and the images of the requests \<^verbatim>\<open>fetch\<close> has sent and not yet answered.
  \<open>result_image\<close> is bookkeeping for the proofs only: the image carried by the request whose
  answer was last stored as \<^verbatim>\<open>analysisResult\<close>.
\<close>

record world =
  ui :: client
  reads :: "jsfile list"
  requests :: "jsstring list"
  result_image :: "jsstring option"

datatype event =
    Mount                              \<comment> \<open>the effect \<^verbatim>\<open>setMounted(true)\<close>\<close>
  | ChooseFile "jsfile option"           \<comment> \<open>\<^verbatim>\<open>onChange\<close> of the file input\<close>
  | FileLoaded jsfile                  \<comment> \<open>\<^verbatim>\<open>onload\<close> of a read under way\<close>
  | OpenCamera                         \<comment> \<open>click on the camera button\<close>
  | CancelCamera                       \<comment> \<open>\<^verbatim>\<open>Cancel\<close> in the camera dialog\<close>
  | Capture "jsstring option"          \<comment> \<open>\<^verbatim>\<open>Capture\<close> in the camera dialog, with the screenshot\<close>
  | ClickAnalyze                       \<comment> \<open>click on \<^verbatim>\<open>Analyze Food\<close>\<close>
  | FetchDone fetch_outcome            \<comment> \<open>the request in flight ends\<close>

definition init :: world where
  "init =
     \<lparr>ui = \<lparr>selectedImage = None, analysisResult = None, isAnalyzing = False, error = None,
             showCamera = False, mounted = False\<rparr>,
      reads = [], requests = [], result_image = None\<rparr>"

text \<open>
  One event. A state update is in place before the next event is handled. An event that
  the rendered page cannot produce (a click on a button that is absent or disabled, the
  end of a read or of a request that is not under way) changes nothing.
\<close>

fun step :: "event \<Rightarrow> world \<Rightarrow> world" where
  "step Mount w = w\<lparr>ui := (ui w)\<lparr>mounted := True\<rparr>\<rparr>"
| "step (ChooseFile chosen) w =
     (if \<not> mounted (ui w) then w
      else
        (case handleImageUpload chosen (ui w) of
           (s, None) \<Rightarrow> w\<lparr>ui := s\<rparr>
         | (s, Some f) \<Rightarrow> w\<lparr>ui := s, reads := reads w @ [f]\<rparr>))"
| "step (FileLoaded f) w =
     (if f \<in> set (reads w)
      then w\<lparr>ui := reader_onload (data_url f) (ui w), reads := remove1 f (reads w)\<rparr>
      else w)"
| "step OpenCamera w = (if mounted (ui w) then w\<lparr>ui := handleCapture (ui w)\<rparr> else w)"
| "step CancelCamera w =
     (if mounted (ui w) \<and> showCamera (ui w) then w\<lparr>ui := (ui w)\<lparr>showCamera := False\<rparr>\<rparr> else w)"
| "step (Capture shot) w =
     (if mounted (ui w) \<and> showCamera (ui w) then w\<lparr>ui := captureImage (Some shot) (ui w)\<rparr> else w)"
| "step ClickAnalyze w =
     (if analyze_enabled (ui w) then
        (case handleAnalyze_start (ui w) of
           (s, None) \<Rightarrow> w\<lparr>ui := s\<rparr>
         | (s, Some img) \<Rightarrow> w\<lparr>ui := s, requests := requests w @ [img]\<rparr>)
      else w)"
| "step (FetchDone outcome) w =
     (case requests w of
        [] \<Rightarrow> w
      | img # rest \<Rightarrow>
          w\<lparr>ui := handleAnalyze_resume outcome (ui w), requests := rest,
            result_image := (case analyze_try outcome of Inr r \<Rightarrow> Some img | Inl e \<Rightarrow> result_image w)\<rparr>)"

fun run :: "event list \<Rightarrow> world \<Rightarrow> world" where
  "run [] w = w"
| "run (e # es) w = run es (step e w)"

text \<open>The events that can set a new image.\<close>

fun is_capture :: "event \<Rightarrow> bool" where
  "is_capture (FileLoaded f) = True"
| "is_capture (Capture shot) = True"
| "is_capture e = False"

text \<open>
  Two notes on the history of a run, for the proofs only. \<open>tainted\<close>: since the request in
  flight was sent, a capture has set an image. \<open>stale\<close>: the answer last stored as
  \<^verbatim>\<open>analysisResult\<close> came from a request that was tainted when it ended. \<open>observe\<close> keeps the
  notes for an event that happens in the world \<open>w\<close>.
\<close>

record history =
  tainted :: bool
  stale :: bool

definition sets_image :: "event \<Rightarrow> world \<Rightarrow> bool" where
  "sets_image e w =
     (case e of
        FileLoaded f \<Rightarrow> f \<in> set (reads w)
      | Capture shot \<Rightarrow>
          mounted (ui w) \<and> showCamera (ui w) \<and> (case shot of None \<Rightarrow> False | Some src \<Rightarrow> src \<noteq> [])
      | _ \<Rightarrow> False)"

definition observe :: "event \<Rightarrow> world \<Rightarrow> history \<Rightarrow> history" where
  "observe e w h =
     (if sets_image e w then \<lparr>tainted = (requests w \<noteq> []), stale = False\<rparr>
      else
        (case e of
           ClickAnalyze \<Rightarrow> if analyze_enabled (ui w) then h\<lparr>tainted := False\<rparr> else h
         | FetchDone outcome \<Rightarrow>
             (case requests w of
                [] \<Rightarrow> h
              | img # rest \<Rightarrow>
                  (case analyze_try outcome of Inr r \<Rightarrow> h\<lparr>stale := tainted h\<rparr> | Inl e \<Rightarrow> h))
         | _ \<Rightarrow> h))"

fun trace :: "event list \<Rightarrow> world \<Rightarrow> history \<Rightarrow> history" where
  "trace [] w h = h"
| "trace (e # es) w h = trace es (step e w) (observe e w h)"

definition no_history :: history where
  "no_history = \<lparr>tainted = False, stale = False\<rparr>"

section \<open>Notions of the specification, and fixed inputs\<close>

text \<open>A fenced JSON block: the text \<open>inner\<close> between a fence tagged \<^verbatim>\<open>json\<close> and a closing fence.\<close>

definition fenced :: "jsstring \<Rightarrow> jsstring" where
  "fenced inner = js ''```json'' @ inner @ js ''```''"

text \<open>
  A brace span starts at the head of \<open>s\<close>: an opening brace, at least one character, and a
  closing brace somewhere after it.
\<close>

definition brace_span_starts :: "jsstring \<Rightarrow> bool" where
  "brace_span_starts s = (case s of c # d # r \<Rightarrow> c = lbrace \<and> rbrace \<in> set r | _ \<Rightarrow> False)"

text \<open>
  \<open>P\<close> holds at no position of the text \<open>pre @ rest\<close> that lies in \<open>pre\<close>, for a property \<open>P\<close> of
  the text from a position on.
\<close>

fun nowhere_before :: "(jsstring \<Rightarrow> bool) \<Rightarrow> jsstring \<Rightarrow> jsstring \<Rightarrow> bool" where
  "nowhere_before P [] rest = True"
| "nowhere_before P (c # pre) rest = (\<not> P (c # pre @ rest) \<and> nowhere_before P pre rest)"

text \<open>The opening fence tagged \<^verbatim>\<open>json\<close>, and a closing fence, at the head of \<open>s\<close>.\<close>

definition opens_fence :: "jsstring \<Rightarrow> bool" where
  "opens_fence s = startsWith s (js ''```json'')"

definition closes_fence :: "jsstring \<Rightarrow> bool" where
  "closes_fence s = startsWith s (js ''```'')"

text \<open>The text contains a fenced block that the first alternative of the pattern matches.\<close>

fun fence_anywhere :: "jsstring \<Rightarrow> bool" where
  "fence_anywhere [] \<longleftrightarrow> fence_alt [] \<noteq> None"
| "fence_anywhere (c # cs) \<longleftrightarrow> fence_alt (c # cs) \<noteq> None \<or> fence_anywhere cs"

text \<open>
  The first top-level \<^verbatim>\<open>{...}\<close> span, in the words of the specification: from the first
  opening brace to the closing brace that balances it. \<open>close_span\<close> scans after an
  opening brace with the number of braces still open inside.
\<close>

fun close_span :: "nat \<Rightarrow> jsstring \<Rightarrow> jsstring \<Rightarrow> jsstring option" where
  "close_span d acc [] = None"
| "close_span d acc (c # cs) =
     (if c = rbrace then (case d of 0 \<Rightarrow> Some (acc @ [c]) | Suc d' \<Rightarrow> close_span d' (acc @ [c]) cs)
      else if c = lbrace then close_span (Suc d) (acc @ [c]) cs
      else close_span d (acc @ [c]) cs)"

definition first_top_level_span :: "jsstring \<Rightarrow> jsstring option" where
  "first_top_level_span text =
     (case dropWhile (\<lambda>c. c \<noteq> lbrace) text of [] \<Rightarrow> None | c # cs \<Rightarrow> close_span 0 [c] cs)"

text \<open>An external model that answers every image with the given text, and one that fails.\<close>

definition reply_with :: "jsstring \<Rightarrow> double json \<Rightarrow> thrown + completion" where
  "reply_with text img = Inr \<lparr>choices = [\<lparr>message = Some \<lparr>content = Some text\<rparr>\<rparr>]\<rparr>"

definition model_fails :: "jsstring \<Rightarrow> double json \<Rightarrow> thrown + completion" where
  "model_fails m img = Inl (ErrorInstance m)"

text \<open>The request body \<^verbatim>\<open>{ "image": uri }\<close>, parsed.\<close>

definition request_with :: "jsstring \<Rightarrow> thrown + double json" where
  "request_with uri = Inr (JObject [(js ''image'', JString uri)])"

text \<open>An external model whose answer carries no text.\<close>

definition reply_without_text :: "double json \<Rightarrow> thrown + completion" where
  "reply_without_text img = Inr \<lparr>choices = [\<lparr>message = Some \<lparr>content = None\<rparr>\<rparr>]\<rparr>"

text \<open>The object of the reply that the specification gives as its example.\<close>

definition apple_json :: jsstring where
  "apple_json =
     js ''{\"foodName\":\"Apple\",\"calories\":95,\"nutrition\":{\"carbs\":25,\"protein\":0,\"fat\":0},\"healthiness\":\"good\",\"suggestions\":[\"Eat the skin for fiber\"]}''"

text \<open>Files: two small images, a document, an image of exactly 5 MiB and one a byte larger.\<close>

definition png :: jsfile where
  "png = \<lparr>ftype = js ''image/png'', fsize = 1024, data_url = js ''data:image/png;base64,AAAA''\<rparr>"

definition jpg :: jsfile where
  "jpg = \<lparr>ftype = js ''image/jpeg'', fsize = 2048, data_url = js ''data:image/jpeg;base64,BBBB''\<rparr>"

definition pdf :: jsfile where
  "pdf = \<lparr>ftype = js ''application/pdf'', fsize = 1024,
          data_url = js ''data:application/pdf;base64,CCCC''\<rparr>"

definition at_limit :: jsfile where
  "at_limit = \<lparr>ftype = js ''image/png'', fsize = 5 * 1024 * 1024,
               data_url = js ''data:image/png;base64,DDDD''\<rparr>"

definition over_limit :: jsfile where
  "over_limit = \<lparr>ftype = js ''image/png'', fsize = 5 * 1024 * 1024 + 1,
                 data_url = js ''data:image/png;base64,EEEE''\<rparr>"

text \<open>
  The shape \<^verbatim>\<open>interface AnalysisResult\<close> declares, which the page relies on when it renders a
  result, and a result of that shape with the numbers 95, 25, 0 and 0.
\<close>

definition is_number :: "double json option \<Rightarrow> bool" where
  "is_number x = (case x of Some (JNumber d) \<Rightarrow> True | _ \<Rightarrow> False)"

definition is_string :: "double json \<Rightarrow> bool" where
  "is_string x = (case x of JString s \<Rightarrow> True | _ \<Rightarrow> False)"

definition is_AnalysisResult :: "double json \<Rightarrow> bool" where
  "is_AnalysisResult v =
     (case v of
        JObject kvs \<Rightarrow>
          (case get_property kvs (js ''foodName'') of Some (JString s) \<Rightarrow> True | _ \<Rightarrow> False)
          \<and> is_number (get_property kvs (js ''calories''))
          \<and> (case get_property kvs (js ''nutrition'') of
                Some (JObject n) \<Rightarrow>
                  is_number (get_property n (js ''carbs'')) \<and> is_number (get_property n (js ''protein''))
                  \<and> is_number (get_property n (js ''fat''))
              | _ \<Rightarrow> False)
          \<and> (case get_property kvs (js ''healthiness'') of
                Some (JString h) \<Rightarrow> h = js ''good'' \<or> h = js ''okay'' \<or> h = js ''bad''
              | _ \<Rightarrow> False)
          \<and> (case get_property kvs (js ''suggestions'') of
                Some (JArray xs) \<Rightarrow> list_all is_string xs
              | _ \<Rightarrow> False)
      | _ \<Rightarrow> False)"

definition apple_result :: "double json" where
  "apple_result =
     JObject
       [(js ''foodName'', JString (js ''Apple'')),
        (js ''calories'', JNumber 0x4057C00000000000),
        (js ''nutrition'',
           JObject [(js ''carbs'', JNumber 0x4039000000000000), (js ''protein'', JNumber 0),
                    (js ''fat'', JNumber 0)]),
        (js ''healthiness'', JString (js ''good'')),
        (js ''suggestions'', JArray [JString (js ''Eat the skin for fiber'')])]"

text \<open>A request that ends with status 200 and the JSON value \<open>v\<close>, and one that is rejected.\<close>

definition answer :: "double json \<Rightarrow> fetch_outcome" where
  "answer v =
     FetchResolved \<lparr>ok = True, content_type = Some (js ''application/json''), json_body = Inr v\<rparr>"

definition network_down :: fetch_outcome where
  "network_down = FetchRejected (ErrorInstance (js ''Failed to fetch''))"

text \<open>
  Invariants of the page in its environment. At most one request is in flight, and one is
  exactly when the flag \<^verbatim>\<open>isAnalyzing\<close> is set.
\<close>

definition one_in_flight :: "world \<Rightarrow> bool" where
  "one_in_flight w \<longleftrightarrow>
     (requests w = [] \<and> \<not> isAnalyzing (ui w)) \<or> (\<exists>img. requests w = [img] \<and> isAnalyzing (ui w))"

text \<open>
  A request in flight that is not tainted carries the image on display, and so did the
  request whose answer is on display, if that answer is not stale.
\<close>

definition fresh :: "world \<Rightarrow> history \<Rightarrow> bool" where
  "fresh w h \<longleftrightarrow>
     one_in_flight w
     \<and> (\<forall>img. requests w = [img] \<and> \<not> tainted h \<longrightarrow> selectedImage (ui w) = Some img)
     \<and> (analysisResult (ui w) \<noteq> None \<and> \<not> stale h \<longrightarrow> result_image w = selectedImage (ui w))"

section \<open>Facts about the pattern\<close>

lemma js_fence_open: "js ''```json'' = [backtick, backtick, backtick, 0x6A, 0x73, 0x6F, 0x6E]"
  by (simp add: js_def backtick_def)

lemma js_fence_close: "js ''```'' = [backtick, backtick, backtick]"
  by (simp add: js_def backtick_def)

lemma backtick_not_space: "\<not> is_space backtick"
  by (simp add: is_space_def backtick_def)

lemma backtick_not_lbrace: "backtick \<noteq> lbrace"
  by (simp add: lbrace_def backtick_def)

lemma any_char_True: "any_char c"
  by (simp add: any_char_def)

lemma lit_append: "lit p k (p @ s) = k s"
  by (induction p) simp_all

text \<open>A greedy star over a run of class characters that ends before \<open>r\<close>: if the
  continuation accepts \<open>r\<close>, that is the first success.\<close>

lemma star_greedy_run_Some:
  assumes "\<forall>c\<in>set ws. p c" and "r = [] \<or> \<not> p (hd r)" and "k r = Some x"
  shows "star_greedy p k (ws @ r) = Some x"
  using assms
proof (induction ws)
  case Nil
  then show ?case by (cases r) auto
next
  case (Cons w ws)
  then show ?case by simp
qed

lemma plus_lazy_step:
  "p c \<Longrightarrow> plus_lazy p k acc (c # cs) =
     (case k (acc @ [c]) cs of Some r \<Rightarrow> Some r | None \<Rightarrow> plus_lazy p k (acc @ [c]) cs)"
  by simp

lemma plus_greedy_step:
  "p c \<Longrightarrow> plus_greedy p k acc (c # cs) =
     (case plus_greedy p k (acc @ [c]) cs of Some r \<Rightarrow> Some r | None \<Rightarrow> k (acc @ [c]) cs)"
  by simp

text \<open>The lazy group stops at the first length at which the rest of the pattern matches.\<close>

lemma plus_lazy_first:
  assumes "b \<noteq> []"
    and "\<And>n. 0 < n \<Longrightarrow> n < length b \<Longrightarrow> k (acc @ take n b) (drop n b @ t) = None"
    and "k (acc @ b) t = Some x"
    and "\<And>c. p c"
  shows "plus_lazy p k acc (b @ t) = Some x"
  using assms
proof (induction b arbitrary: acc)
  case Nil
  then show ?case by simp
next
  case (Cons c b)
  show ?case
  proof (cases "b = []")
    case True
    with Cons.prems(3) show ?thesis
      by (simp del: plus_lazy.simps add: plus_lazy_step [OF Cons.prems(4)])
  next
    case False
    have first: "k (acc @ [c]) (b @ t) = None"
      using Cons.prems(2) [of 1] False by simp
    have rest: "\<And>n. 0 < n \<Longrightarrow> n < length b \<Longrightarrow> k ((acc @ [c]) @ take n b) (drop n b @ t) = None"
    proof -
      fix n assume "0 < n" "n < length b"
      then show "k ((acc @ [c]) @ take n b) (drop n b @ t) = None"
        using Cons.prems(2) [of "Suc n"] by simp
    qed
    have last: "k ((acc @ [c]) @ b) t = Some x"
      using Cons.prems(3) by simp
    have "plus_lazy p k (acc @ [c]) (b @ t) = Some x"
      using Cons.IH [of "acc @ [c]", OF False rest last Cons.prems(4)] .
    with first show ?thesis
      by (simp del: plus_lazy.simps add: plus_lazy_step [OF Cons.prems(4)])
  qed
qed

text \<open>A nonempty suffix of a text that does not end in white space starts, after its
  white space, with a character of the text.\<close>

lemma suffix_first_nonspace:
  assumes "s \<noteq> []" and "\<not> is_space (last s)"
  shows "\<exists>ws c r. s = ws @ c # r \<and> (\<forall>x\<in>set ws. is_space x) \<and> \<not> is_space c"
proof -
  let ?ws = "takeWhile is_space s"
  let ?r = "dropWhile is_space s"
  have "?r \<noteq> []"
  proof
    assume "?r = []"
    then have "\<forall>x\<in>set s. is_space x" by (simp add: dropWhile_eq_Nil_conv)
    with assms show False using last_in_set by blast
  qed
  then obtain c r where r: "?r = c # r" by (cases ?r) auto
  then have "\<not> is_space c" using hd_dropWhile [of is_space s] \<open>?r \<noteq> []\<close> by (metis list.sel(1))
  moreover have "s = ?ws @ c # r" using r by (metis takeWhile_dropWhile_id)
  moreover have "\<forall>x\<in>set ?ws. is_space x" by (auto dest: set_takeWhileD)
  ultimately show ?thesis by blast
qed

lemma str_match_found: "match_here s = Some m \<Longrightarrow> str_match s = Some m"
  by (cases s) simp_all

lemma str_match_skip:
  assumes "\<And>p1 p2. pre = p1 @ p2 \<Longrightarrow> p2 \<noteq> [] \<Longrightarrow> match_here (p2 @ rest) = None"
  shows "str_match (pre @ rest) = str_match rest"
  using assms
proof (induction pre)
  case Nil
  then show ?case by simp
next
  case (Cons c pre)
  have here: "match_here ((c # pre) @ rest) = None"
    using Cons.prems [of "[]" "c # pre"] by simp
  have "str_match (pre @ rest) = str_match rest"
  proof (rule Cons.IH)
    fix p1 p2 assume "pre = p1 @ p2" "p2 \<noteq> []"
    then show "match_here (p2 @ rest) = None" using Cons.prems [of "c # p1" p2] by simp
  qed
  with here show ?case by simp
qed

lemma fence_alt_hd: "c \<noteq> backtick \<Longrightarrow> fence_alt (c # s) = None"
  by (simp add: fence_alt_def js_fence_open)

lemma fence_alt_Nil: "fence_alt [] = None"
  by (simp add: fence_alt_def js_fence_open)

lemma brace_alt_hd: "c \<noteq> lbrace \<Longrightarrow> brace_alt (c # s) = None"
  by (simp add: brace_alt_def)

lemma brace_alt_Nil: "brace_alt [] = None"
  by (simp add: brace_alt_def)

lemma plus_greedy_no_rbrace:
  "rbrace \<notin> set t \<Longrightarrow> plus_greedy p (\<lambda>g. lit [rbrace] (\<lambda>_. Some (f g))) acc t = None"
proof (induction t arbitrary: acc)
  case Nil
  then show ?case by simp
next
  case (Cons c t)
  then have "plus_greedy p (\<lambda>g. lit [rbrace] (\<lambda>_. Some (f g))) (acc @ [c]) t = None" by simp
  moreover have "lit [rbrace] (\<lambda>_. Some (f (acc @ [c]))) t = None"
    using Cons.prems by (cases t) auto
  ultimately show ?case by simp
qed

lemma plus_greedy_last_rbrace:
  assumes "mid \<noteq> []" and "rbrace \<notin> set t" and "\<And>c. p c"
  shows "plus_greedy p (\<lambda>g. lit [rbrace] (\<lambda>_. Some (f g))) acc (mid @ rbrace # t) = Some (f (acc @ mid))"
  using assms
proof (induction mid arbitrary: acc)
  case Nil
  then show ?case by simp
next
  case (Cons c mid)
  show ?case
  proof (cases "mid = []")
    case True
    have "plus_greedy p (\<lambda>g. lit [rbrace] (\<lambda>_. Some (f g))) ((acc @ [c]) @ [rbrace]) t = None"
      by (rule plus_greedy_no_rbrace [OF Cons.prems(2)])
    moreover have "lit [rbrace] (\<lambda>_. Some (f ((acc @ [c]) @ [rbrace]))) t = None"
      using Cons.prems(2) by (cases t) auto
    ultimately show ?thesis using True
      by (simp del: plus_greedy.simps add: plus_greedy_step [OF Cons.prems(3)])
  next
    case False
    have "plus_greedy p (\<lambda>g. lit [rbrace] (\<lambda>_. Some (f g))) (acc @ [c]) (mid @ rbrace # t)
            = Some (f ((acc @ [c]) @ mid))"
      by (rule Cons.IH [OF False Cons.prems(2,3)])
    then show ?thesis
      by (simp del: plus_greedy.simps add: plus_greedy_step [OF Cons.prems(3)])
  qed
qed

lemma brace_alt_span:
  assumes "mid \<noteq> []" and "rbrace \<notin> set t"
  shows "brace_alt (lbrace # mid @ rbrace # t) = Some (lbrace # mid @ [rbrace])"
  unfolding brace_alt_def
  using plus_greedy_last_rbrace [OF assms any_char_True, where f = "\<lambda>g. lbrace # g @ [rbrace]" and acc = "[]"]
  by simp

lemma match_here_other: "c \<noteq> backtick \<Longrightarrow> c \<noteq> lbrace \<Longrightarrow> match_here (c # s) = None"
  by (simp add: match_here_def fence_alt_hd brace_alt_hd)

lemma fence_anywhere_here: "fence_alt s \<noteq> None \<Longrightarrow> fence_anywhere s"
  by (cases s) simp_all

lemma fence_anywhere_append: "fence_anywhere s \<Longrightarrow> fence_anywhere (p @ s)"
  by (induction p) (auto simp: fence_anywhere_here)

lemma no_fence_suffix: "\<not> fence_anywhere (p @ s) \<Longrightarrow> fence_alt s = None"
  using fence_anywhere_append fence_anywhere_here by blast

lemma lit_Some_prefix: "lit p k s = Some x \<Longrightarrow> startsWith s p"
proof (induction p arbitrary: s)
  case Nil
  then show ?case by (simp add: startsWith_def)
next
  case (Cons c p)
  then show ?case by (cases s) (auto simp: startsWith_def split: if_splits)
qed

lemma fence_alt_opens: "fence_alt s \<noteq> None \<Longrightarrow> opens_fence s"
  unfolding fence_alt_def opens_fence_def by (auto dest: lit_Some_prefix)

lemma not_closes_lit_None: "\<not> closes_fence s \<Longrightarrow> lit (js ''```'') k s = None"
proof (cases "lit (js ''```'') k s")
  case None
  then show ?thesis .
next
  case (Some x)
  then have "startsWith s (js ''```'')" by (rule lit_Some_prefix)
  moreover assume "\<not> closes_fence s"
  ultimately show ?thesis by (simp add: closes_fence_def)
qed

lemma closes_fence_append: "3 \<le> length s \<Longrightarrow> closes_fence (s @ t) = closes_fence s"
  by (simp add: closes_fence_def startsWith_def js_def)

text \<open>White space and then a character at which no closing fence starts: no close here.\<close>

lemma star_greedy_fence_None:
  assumes "\<forall>x\<in>set us. is_space x" and "\<not> is_space c" and "\<not> closes_fence (c # r)"
  shows "star_greedy is_space (lit (js ''```'') k) (us @ c # r) = None"
  using assms
proof (induction us)
  case Nil
  then show ?case by (simp add: not_closes_lit_None)
next
  case (Cons w us)
  then have "w \<noteq> backtick" using backtick_not_space by auto
  with Cons show ?case by (simp add: js_fence_close)
qed

lemma nowhere_beforeD:
  "nowhere_before P pre rest \<Longrightarrow> pre = p1 @ p2 \<Longrightarrow> p2 \<noteq> [] \<Longrightarrow> \<not> P (p2 @ rest)"
proof (induction pre arbitrary: p1)
  case Nil
  then show ?case by simp
next
  case (Cons c pre)
  show ?case
  proof (cases p1)
    case Nil
    with Cons.prems show ?thesis by auto
  next
    case (Cons d p1')
    with Cons.prems Cons.IH [of p1'] show ?thesis by auto
  qed
qed

text \<open>
  The first alternative at an opening fence: white space, contents that neither start
  nor end with white space and in which no closing fence starts after their first
  character, white space, the closing fence. Group 1 is the contents.
\<close>

lemma fence_alt_block:
  assumes ws: "\<forall>c\<in>set ws. is_space c" and ws': "\<forall>c\<in>set ws'. is_space c"
    and ne: "inner \<noteq> []" and hd: "\<not> is_space (hd inner)" and lst: "\<not> is_space (last inner)"
    and early: "nowhere_before closes_fence (tl inner) (ws' @ js ''```'')"
  shows "fence_alt (js ''```json'' @ ws @ inner @ ws' @ js ''```'' @ post) = Some inner"
proof -
  let ?k = "\<lambda>g. star_greedy is_space (lit (js ''```'') (\<lambda>_. Some g))"
  let ?t = "ws' @ js ''```'' @ post"
  have close: "?k ([] @ inner) ?t = Some inner"
  proof -
    have "star_greedy is_space (lit (js ''```'') (\<lambda>_. Some inner)) (ws' @ (js ''```'' @ post)) = Some inner"
      by (rule star_greedy_run_Some [OF ws']) (simp_all add: js_fence_close backtick_not_space)
    then show ?thesis by simp
  qed
  have no_close: "\<And>n. 0 < n \<Longrightarrow> n < length inner \<Longrightarrow> ?k ([] @ take n inner) (drop n inner @ ?t) = None"
  proof -
    fix n assume n: "0 < n" "n < length inner"
    then have "drop n inner \<noteq> []" by simp
    moreover have "last (drop n inner) = last inner" using n by simp
    ultimately obtain us c r where
      d: "drop n inner = us @ c # r" and us: "\<forall>x\<in>set us. is_space x" and c: "\<not> is_space c"
      using suffix_first_nonspace [of "drop n inner"] lst by auto
    have tl_split: "tl inner = (take (n - 1) (tl inner) @ us) @ c # r"
    proof -
      have "drop (n - 1) (tl inner) = drop n inner"
        using n by (cases inner; cases n) simp_all
      then have "tl inner = take (n - 1) (tl inner) @ drop n inner"
        by (metis append_take_drop_id)
      with d show ?thesis by simp
    qed
    have "\<not> closes_fence ((c # r) @ ws' @ js ''```'')"
      by (rule nowhere_beforeD [OF early tl_split]) simp
    moreover have "3 \<le> length (c # r @ ws' @ js ''```'')"
      by (simp add: js_def)
    ultimately have "\<not> closes_fence (c # (r @ ?t))"
      using closes_fence_append [of "c # r @ ws' @ js ''```''" post] by simp
    then have "star_greedy is_space (lit (js ''```'') (\<lambda>_. Some ([] @ take n inner))) (us @ c # (r @ ?t)) = None"
      by (rule star_greedy_fence_None [OF us c])
    with d show "?k ([] @ take n inner) (drop n inner @ ?t) = None" by simp
  qed
  have lazy: "plus_lazy any_char ?k [] (inner @ ?t) = Some inner"
    by (rule plus_lazy_first [OF ne no_close close any_char_True])
  have "inner @ ?t = [] \<or> \<not> is_space (hd (inner @ ?t))"
    using ne hd by simp
  then have "star_greedy is_space (plus_lazy any_char ?k []) (ws @ (inner @ ?t)) = Some inner"
    using star_greedy_run_Some [where p = is_space and ws = ws and r = "inner @ ?t"
        and k = "plus_lazy any_char ?k []" and x = inner] ws lazy by blast
  then show ?thesis
    unfolding fence_alt_def by (simp add: lit_append)
qed

text \<open>The second alternative matches exactly where a brace span starts.\<close>

lemma brace_alt_starts: "brace_alt s \<noteq> None \<longleftrightarrow> brace_span_starts s"
proof
  assume m: "brace_alt s \<noteq> None"
  show "brace_span_starts s"
  proof (cases s)
    case Nil
    with m show ?thesis by (simp add: brace_alt_Nil)
  next
    case (Cons c s')
    have c: "c = lbrace"
    proof (rule ccontr)
      assume "c \<noteq> lbrace"
      then have "brace_alt (c # s') = None" by (rule brace_alt_hd)
      with m Cons show False by simp
    qed
    show ?thesis
    proof (cases s')
      case Nil
      with m \<open>s = c # s'\<close> c show ?thesis by (simp add: brace_alt_def)
    next
      case (Cons d r)
      have "rbrace \<in> set r"
      proof (rule ccontr)
        assume no: "rbrace \<notin> set r"
        have "plus_greedy any_char (\<lambda>g. lit [rbrace] (\<lambda>_. Some (lbrace # g @ [rbrace]))) ([] @ [d]) r = None"
          by (rule plus_greedy_no_rbrace [OF no])
        moreover have "lit [rbrace] (\<lambda>_. Some (lbrace # ([] @ [d]) @ [rbrace])) r = None"
          using no by (cases r) auto
        ultimately have "brace_alt s = None"
          using \<open>s = c # s'\<close> Cons c
          by (simp add: brace_alt_def del: plus_greedy.simps add: plus_greedy_step [OF any_char_True])
        with m show False by simp
      qed
      with \<open>s = c # s'\<close> Cons c show ?thesis by (simp add: brace_span_starts_def)
    qed
  qed
next
  assume "brace_span_starts s"
  then obtain d r where s: "s = lbrace # d # r" and "rbrace \<in> set r"
    by (auto simp: brace_span_starts_def split: list.splits)
  then obtain r1 r2 where r: "r = r1 @ rbrace # r2" and "rbrace \<notin> set r2"
    using split_list_last [of rbrace r] by auto
  then have "brace_alt (lbrace # (d # r1) @ rbrace # r2) = Some (lbrace # (d # r1) @ [rbrace])"
    by (intro brace_alt_span) simp_all
  with s r show "brace_alt s \<noteq> None" by simp
qed

text \<open>
  A fenced block before which no brace span and no opening fence starts is what the
  pattern finds, and its contents without the surrounding white space are group 1.
\<close>

lemma jsonString_fenced:
  assumes "nowhere_before brace_span_starts pre (fenced (ws @ inner @ ws') @ post)"
    and "nowhere_before opens_fence pre (fenced (ws @ inner @ ws') @ post)"
    and "\<forall>c\<in>set ws. is_space c" and "\<forall>c\<in>set ws'. is_space c"
    and "inner \<noteq> []" and "\<not> is_space (hd inner)" and "\<not> is_space (last inner)"
    and "nowhere_before closes_fence (tl inner) (ws' @ js ''```'')"
  shows "jsonString (pre @ fenced (ws @ inner @ ws') @ post) = Some inner"
proof -
  let ?rest = "fenced (ws @ inner @ ws') @ post"
  have fence: "fence_alt ?rest = Some inner"
    using fence_alt_block [OF assms(3-8), of post] by (simp add: fenced_def)
  then have here: "str_match ?rest = Some (Some inner, None)"
    by (intro str_match_found) (simp add: match_here_def)
  have "str_match (pre @ ?rest) = str_match ?rest"
  proof (rule str_match_skip)
    fix p1 p2 assume split: "pre = p1 @ p2" and ne: "p2 \<noteq> []"
    have "\<not> opens_fence (p2 @ ?rest)"
      by (rule nowhere_beforeD [OF assms(2) split ne])
    then have "fence_alt (p2 @ ?rest) = None"
      using fence_alt_opens by blast
    moreover have "\<not> brace_span_starts (p2 @ ?rest)"
      by (rule nowhere_beforeD [OF assms(1) split ne])
    then have "brace_alt (p2 @ ?rest) = None"
      using brace_alt_starts by blast
    ultimately show "match_here (p2 @ ?rest) = None" by (simp add: match_here_def)
  qed
  with here show ?thesis using assms(5) by (simp add: jsonString_def js_or_def)
qed

lemma no_backtick_no_close: "backtick \<notin> set s \<Longrightarrow> nowhere_before closes_fence s rest"
  by (induction s) (auto simp: closes_fence_def startsWith_def js_fence_close)

section \<open>Facts about the reading and the writing of numbers and values\<close>

lemma small_magnitude: "e \<le> 0 \<Longrightarrow> m < 18446744073709551616 \<Longrightarrow> magnitude_overflows m e = False"
proof -
  assume e: "e \<le> 0" and m: "m < 18446744073709551616"
  have b: "(18446744073709551616 :: nat) \<le> overflow_bound"
    by (simp add: overflow_bound_def)
  have up: "overflow_bound * 1 \<le> overflow_bound * 10 ^ nat (- e)"
    by (rule mult_le_mono2) simp
  have "m < overflow_bound" using m b by (rule less_le_trans)
  also have "overflow_bound \<le> overflow_bound * 10 ^ nat (- e)" using up by simp
  finally have below: "m < overflow_bound * 10 ^ nat (- e)" .
  have "e = 0 \<Longrightarrow> m * 10 ^ nat e < overflow_bound"
    using \<open>m < overflow_bound\<close> by simp
  with below show ?thesis using e by (auto simp: magnitude_overflows_def)
qed

lemma magnitude_1e400: "magnitude_overflows (Suc 0) 400 = True"
  by (simp add: magnitude_overflows_def overflow_bound_def)

lemma written_number_literal: "is_literal n \<Longrightarrow> written_number n = JNumber n"
  by (cases n) simp_all

lemma written_number_same: "written_number n = JNumber n \<Longrightarrow> is_literal n"
  by (cases n) simp_all

text \<open>Writing leaves a value as it is exactly when the value is plain.\<close>

lemma written_plain: "JSON_written v = v \<longleftrightarrow> plain v"
proof (induction v)
  case (JNumber n)
  then show ?case using written_number_literal written_number_same by auto
next
  case (JArray xs)
  then show ?case by (auto simp: map_idI map_eq_conv [where g = id, simplified])
next
  case (JObject kvs)
  have "map (map_prod id JSON_written) kvs = kvs \<longleftrightarrow> (\<forall>kv\<in>set kvs. map_prod id JSON_written kv = kv)"
    using map_eq_conv [of "map_prod id JSON_written" kvs id] by simp
  also have "\<dots> \<longleftrightarrow> (\<forall>kv\<in>set kvs. JSON_written (snd kv) = snd kv)"
    by (auto simp: map_prod_def split: prod.splits)
  also have "\<dots> \<longleftrightarrow> (\<forall>kv\<in>set kvs. plain (snd kv))"
    using JObject.IH by (auto simp: snds.simps)
  finally show ?case by auto
qed simp_all

section \<open>Evaluating on fixed inputs\<close>

text \<open>The equations of the reader for a counter that is written as a numeral.\<close>

lemmas json_value_numeral =
  json_value.simps(2) [of "pred_numeral k" for k, folded numeral_eq_Suc]
lemmas json_elements_numeral =
  json_elements.simps(2) [of "pred_numeral k" for k, folded numeral_eq_Suc]
lemmas json_members_numeral =
  json_members.simps(2) [of "pred_numeral k" for k, folded numeral_eq_Suc]

lemmas pattern_eval = jsonString_def js_def match_here_def fence_alt_def brace_alt_def lbrace_def
  rbrace_def backtick_def any_char_def is_space_def js_or_def fenced_def

lemmas position_eval = brace_span_starts_def opens_fence_def closes_fence_def startsWith_def
  js_def lbrace_def rbrace_def fenced_def

lemmas reader_eval = JSON_parse_def skip_ws_def is_json_ws_def is_digit_def hex_value_def hex4_def
  escape_char_def digits1_def number_literal_def keyword_def
  json_value_numeral json_elements_numeral json_members_numeral
  to_number_def Let_def digits_value_def magnitude_vanishes_def small_magnitude magnitude_1e400
  array_index_def enumeration_order_def

lemmas bridge_eval = POST_def POST_try_def parse_reply_def to_string_def analysisText_of_def
  reply_with_def model_fails_def reply_without_text_def request_with_def get_property_def

lemmas client_eval = handleImageUpload_def reader_onload_def handleCapture_def captureImage_def
  handleAnalyze_start_def handleAnalyze_resume_def analyze_enabled_def startsWith_def init_def

lemmas history_eval = observe_def sets_image_def no_history_def

text \<open>The example of the specification: the fenced reply selects the object, and it parses.\<close>

lemma apple_selected: "jsonString (fenced ([0x0A] @ apple_json @ [0x0A])) = Some apple_json"
proof -
  have b: "backtick \<notin> set (tl apple_json)"
    by (simp add: apple_json_def js_def backtick_def)
  have h: "nowhere_before brace_span_starts [] (fenced ([0x0A] @ apple_json @ [0x0A]) @ [])"
    "nowhere_before opens_fence [] (fenced ([0x0A] @ apple_json @ [0x0A]) @ [])"
    "\<forall>c\<in>set [0x0A]. is_space c" "\<forall>c\<in>set [0x0A]. is_space c"
    "apple_json \<noteq> []" "\<not> is_space (hd apple_json)"
    "\<not> is_space (last apple_json)"
    by (simp_all add: apple_json_def js_def is_space_def)
  show ?thesis
    using jsonString_fenced [OF h no_backtick_no_close [OF b]] by simp
qed

lemma apple_parsed:
  "JSON_parse apple_json =
     Some (JObject
       [(js ''foodName'', JString (js ''Apple'')),
        (js ''calories'', JNumber (Literal (js ''95''))),
        (js ''nutrition'',
           JObject [(js ''carbs'', JNumber (Literal (js ''25''))),
                    (js ''protein'', JNumber (Literal (js ''0''))),
                    (js ''fat'', JNumber (Literal (js ''0'')))]),
        (js ''healthiness'', JString (js ''good'')),
        (js ''suggestions'', JArray [JString (js ''Eat the skin for fiber'')])])"
  unfolding apple_json_def by (simp add: reader_eval js_def)

section \<open>Facts about the handler and the page\<close>


lemma sample_request:
  "destructure_image (JObject [(js ''image'', JString (js ''data:image/png;base64,AAAA''))])
     = Inr (Some (JString (js ''data:image/png;base64,AAAA'')))"
  "truthy (Some (JString (js ''data:image/png;base64,AAAA'')))"
  "has_slice (JString (js ''data:image/png;base64,AAAA''))"
  by (simp_all add: js_def get_property_def)

lemma one_in_flight_step: "one_in_flight w \<Longrightarrow> one_in_flight (step e w)"
  by (cases e)
     (auto simp: one_in_flight_def client_eval
           split: option.splits list.splits sum.splits prod.splits if_splits)

lemma one_in_flight_run: "one_in_flight w \<Longrightarrow> one_in_flight (run es w)"
  by (induction es arbitrary: w) (simp_all add: one_in_flight_step)

lemma one_in_flight_init: "one_in_flight init"
  by (simp add: one_in_flight_def init_def)

lemma fresh_step: "fresh w h \<Longrightarrow> fresh (step e w) (observe e w h)"
  by (cases e)
     (auto simp: fresh_def one_in_flight_def client_eval nullable_def observe_def sets_image_def
           split: option.splits list.splits sum.splits prod.splits if_splits)

lemma fresh_run: "fresh w h \<Longrightarrow> fresh (run es w) (trace es w h)"
  by (induction es arbitrary: w h) (simp_all add: fresh_step)

lemma fresh_init: "fresh init no_history"
  by (simp add: fresh_def one_in_flight_def init_def no_history_def)

section \<open>The claims\<close>

subsection \<open>C1: a request without an image\<close>

text \<open>
  C1, as stated, fails. A \<^verbatim>\<open>POST\<close> whose body is the JSON value \<^verbatim>\<open>null\<close> carries no
  \<^verbatim>\<open>image\<close>, and so does one whose body is empty and cannot be read as JSON. Both are
  answered with status 500 and the general failure body, not with status 400: the
  destructuring and \<^verbatim>\<open>request.json()\<close> throw inside the \<^verbatim>\<open>try\<close> block.
\<close>

theorem C1_null_body_counterexample:
  "POST JSON_parse JSON_written (reply_with (js ''{}'')) (Inr JNull) =
     (\<lparr>status = 500,
       body = FailureBody (js ''Failed to analyze food image'') (EngineMessage DestructureNull)\<rparr>,
      [])
   \<and> POST JSON_parse JSON_written (reply_with (js ''{}''))
        (Inl (ErrorInstance (js ''Unexpected end of JSON input''))) =
     (\<lparr>status = 500,
       body = FailureBody (js ''Failed to analyze food image'')
                (Message (js ''Unexpected end of JSON input''))\<rparr>,
      [])"
  by (simp add: POST_def POST_try_def)

text \<open>
  C1, amended. For every \<^verbatim>\<open>POST\<close> whose body is read as a JSON value other than \<^verbatim>\<open>null\<close>, if
  that value has no \<^verbatim>\<open>image\<close> member or its \<^verbatim>\<open>image\<close> is the empty string, the bridge
  answers with status 400 and the body \<^verbatim>\<open>{ "error": "No image provided" }\<close>, and the external
  model is not called.
\<close>

theorem C1_missing_image:
  assumes "destructure_image v = Inr None \<or> destructure_image v = Inr (Some (JString []))"
  shows "POST parse stringify create (Inr v) =
           (\<lparr>status = 400, body = ErrorBody (js ''No image provided'')\<rparr>, [])"
  using assms by (auto simp: POST_def POST_try_def)

text \<open>C1, witness: the body \<^verbatim>\<open>{}\<close>, and the body \<^verbatim>\<open>{ "image": "" }\<close>.\<close>

theorem C1_missing_image_witness:
  "(destructure_image (JObject []) = Inr None
      \<or> destructure_image (JObject []) = Inr (Some (JString [])))
   \<and> POST JSON_parse JSON_written (reply_with (js ''{}'')) (Inr (JObject [])) =
        (\<lparr>status = 400, body = ErrorBody (js ''No image provided'')\<rparr>, [])
   \<and> POST JSON_parse JSON_written (reply_with (js ''{}'')) (request_with []) =
        (\<lparr>status = 400, body = ErrorBody (js ''No image provided'')\<rparr>, [])"
proof -
  have h: "destructure_image (JObject []) = Inr None
      \<or> destructure_image (JObject []) = Inr (Some (JString []))"
    by (simp add: get_property_def)
  have h': "destructure_image (JObject [(js ''image'', JString [])]) = Inr None
      \<or> destructure_image (JObject [(js ''image'', JString [])]) = Inr (Some (JString []))"
    by (simp add: get_property_def)
  show ?thesis
    using h C1_missing_image [OF h, of JSON_parse JSON_written "reply_with (js ''{}'')"]
      C1_missing_image [OF h', of JSON_parse JSON_written "reply_with (js ''{}'')"]
    by (simp add: request_with_def)
qed

subsection \<open>C2: a fenced block in the reply\<close>

text \<open>
  C2, as stated, fails. The text \<^verbatim>\<open>{a} ```json [1] ```\<close> contains a fenced JSON block, but
  the pattern matches at the leftmost position where either alternative matches, and the
  brace alternative matches at the first character. The string selected is \<^verbatim>\<open>{a}\<close>, not
  the contents \<^verbatim>\<open>[1]\<close> of the block, and the reply is answered with status 500 although
  the block holds valid JSON.
\<close>

theorem C2_brace_before_fence_counterexample:
  "fence_anywhere (js ''{a} '' @ fenced (js '' [1] ''))
   \<and> jsonString (js ''{a} '' @ fenced (js '' [1] '')) = Some (js ''{a}'')
   \<and> JSON_parse (js ''[1]'') = Some (JArray [JNumber (Literal (js ''1''))])
   \<and> status (parse_reply JSON_parse JSON_written (js ''{a} '' @ fenced (js '' [1] ''))) = 500"
  by (simp add: parse_reply_def to_string_def pattern_eval reader_eval)

text \<open>
  C2, amended. For every reply text that contains a fenced JSON block before which no
  brace span starts (an opening brace that is followed, after at least one character, by a
  closing brace anywhere in the text) and no other opening fence tagged \<^verbatim>\<open>json\<close> starts: the
  string selected for parsing is exactly the contents of that block, that is, what stands
  between the white space after the opening fence and the white space before the first
  closing fence. The contents are not empty, neither start nor end with white space, and
  no closing fence starts in them after their first character.
\<close>

theorem C2_fence_selected:
  assumes "nowhere_before brace_span_starts pre (fenced (ws @ inner @ ws') @ post)"
    and "nowhere_before opens_fence pre (fenced (ws @ inner @ ws') @ post)"
    and "\<forall>c\<in>set ws. is_space c" and "\<forall>c\<in>set ws'. is_space c"
    and "inner \<noteq> []" and "\<not> is_space (hd inner)" and "\<not> is_space (last inner)"
    and "nowhere_before closes_fence (tl inner) (ws' @ js ''```'')"
  shows "jsonString (pre @ fenced (ws @ inner @ ws') @ post) = Some inner"
  using assms by (rule jsonString_fenced)

text \<open>
  C2, witness: before the block there are backticks and an opening brace that is never
  closed, and the contents \<^verbatim>\<open>["`"]\<close> of the block hold a backtick.
\<close>

theorem C2_fence_selected_witness:
  "nowhere_before brace_span_starts (js ''See `it`, { too: '')
     (fenced ([0x0A] @ js ''[\"`\"]'' @ [0x0A, 0x20]) @ js '' done'')
   \<and> nowhere_before opens_fence (js ''See `it`, { too: '')
     (fenced ([0x0A] @ js ''[\"`\"]'' @ [0x0A, 0x20]) @ js '' done'')
   \<and> is_space 0x0A \<and> is_space 0x20
   \<and> js ''[\"`\"]'' \<noteq> [] \<and> \<not> is_space (hd (js ''[\"`\"]''))
   \<and> \<not> is_space (last (js ''[\"`\"]''))
   \<and> nowhere_before closes_fence (tl (js ''[\"`\"]'')) ([0x0A, 0x20] @ js ''```'')
   \<and> jsonString (js ''See `it`, { too: '' @ fenced ([0x0A] @ js ''[\"`\"]'' @ [0x0A, 0x20])
         @ js '' done'')
       = Some (js ''[\"`\"]'')"
proof -
  have h: "nowhere_before brace_span_starts (js ''See `it`, { too: '')
      (fenced ([0x0A] @ js ''[\"`\"]'' @ [0x0A, 0x20]) @ js '' done'')"
    "nowhere_before opens_fence (js ''See `it`, { too: '')
      (fenced ([0x0A] @ js ''[\"`\"]'' @ [0x0A, 0x20]) @ js '' done'')"
    "\<forall>c\<in>set [0x0A]. is_space c" "\<forall>c\<in>set [0x0A, 0x20]. is_space c"
    "js ''[\"`\"]'' \<noteq> []" "\<not> is_space (hd (js ''[\"`\"]''))"
    "\<not> is_space (last (js ''[\"`\"]''))"
    "nowhere_before closes_fence (tl (js ''[\"`\"]'')) ([0x0A, 0x20] @ js ''```'')"
    by (simp_all add: position_eval is_space_def)
  have sp: "is_space 0x0A" "is_space 0x20"
    by (simp_all add: is_space_def)
  show ?thesis using h(1,2,5-8) sp C2_fence_selected [OF h] by simp
qed

subsection \<open>C3: a brace span in the reply\<close>

text \<open>
  C3, as stated, fails. The text \<^verbatim>\<open>{"a":1} or {"a":2}\<close> has no fenced block, and its first
  top-level span is \<^verbatim>\<open>{"a":1}\<close>, which is valid JSON. The greedy pattern runs from the first
  opening brace to the last closing brace of the text: the string selected is the whole
  text, and the reply is answered with status 500.
\<close>

theorem C3_two_spans_counterexample:
  "\<not> fence_anywhere (js ''{\"a\":1} or {\"a\":2}'')
   \<and> first_top_level_span (js ''{\"a\":1} or {\"a\":2}'') = Some (js ''{\"a\":1}'')
   \<and> jsonString (js ''{\"a\":1} or {\"a\":2}'') = Some (js ''{\"a\":1} or {\"a\":2}'')
   \<and> JSON_parse (js ''{\"a\":1}'') = Some (JObject [(js ''a'', JNumber (Literal (js ''1'')))])
   \<and> status (parse_reply JSON_parse JSON_written (js ''{\"a\":1} or {\"a\":2}'')) = 500"
  by (simp add: first_top_level_span_def parse_reply_def to_string_def pattern_eval reader_eval)

text \<open>
  C3, amended. For every reply text that contains no fenced JSON block and whose first
  opening brace is followed, after at least one character, by a closing brace: the string
  selected runs from that first opening brace to the last closing brace of the text, and
  exactly that string is parsed; the answer is the parsed value, serialised, with status
  200, or the parse failure with the whole text as \<^verbatim>\<open>raw\<close>.
\<close>

theorem C3_brace_span_selected:
  assumes "\<not> fence_anywhere (pre @ lbrace # mid @ rbrace # post)"
    and "lbrace \<notin> set pre" and "mid \<noteq> []" and "rbrace \<notin> set post"
  shows "jsonString (pre @ lbrace # mid @ rbrace # post) = Some (lbrace # mid @ [rbrace])
       \<and> parse_reply parse stringify (pre @ lbrace # mid @ rbrace # post) =
           (case parse (lbrace # mid @ [rbrace]) of
              Some analysis \<Rightarrow> \<lparr>status = 200, body = AnalysisBody (stringify analysis)\<rparr>
            | None \<Rightarrow>
                \<lparr>status = 500,
                 body = ParseFailureBody (js ''Failed to parse analysis response'')
                          (pre @ lbrace # mid @ rbrace # post)\<rparr>)"
proof -
  let ?rest = "lbrace # mid @ rbrace # post"
  have "fence_alt ?rest = None"
    using backtick_not_lbrace by (intro fence_alt_hd) auto
  moreover have "brace_alt ?rest = Some (lbrace # mid @ [rbrace])"
    by (rule brace_alt_span [OF assms(3,4)])
  ultimately have here: "str_match ?rest = Some (None, Some (lbrace # mid @ [rbrace]))"
    by (intro str_match_found) (simp add: match_here_def)
  have "str_match (pre @ ?rest) = str_match ?rest"
  proof (rule str_match_skip)
    fix p1 p2 assume split: "pre = p1 @ p2" and "p2 \<noteq> []"
    then obtain c cs where p2: "p2 = c # cs" by (cases p2) auto
    have no_fence: "fence_alt (p2 @ ?rest) = None"
      using assms(1) split no_fence_suffix [of p1 "p2 @ ?rest"] by simp
    have "c \<noteq> lbrace"
      using p2 split assms(2) by auto
    then have "brace_alt (p2 @ ?rest) = None"
      using p2 by (simp add: brace_alt_hd)
    with no_fence show "match_here (p2 @ ?rest) = None" by (simp add: match_here_def)
  qed
  with here have "jsonString (pre @ ?rest) = Some (lbrace # mid @ [rbrace])"
    by (simp add: jsonString_def js_or_def)
  then show ?thesis by (simp add: parse_reply_def to_string_def)
qed

text \<open>C3, witness: the reply \<^verbatim>\<open>Sure: {"a":{}} ok\<close>, whose span has a nested object.\<close>

theorem C3_brace_span_selected_witness:
  "\<not> fence_anywhere (js ''Sure: '' @ lbrace # js ''\"a\":{}'' @ rbrace # js '' ok'')
   \<and> lbrace \<notin> set (js ''Sure: '') \<and> js ''\"a\":{}'' \<noteq> [] \<and> rbrace \<notin> set (js '' ok'')
   \<and> jsonString (js ''Sure: '' @ lbrace # js ''\"a\":{}'' @ rbrace # js '' ok'')
       = Some (js ''{\"a\":{}}'')
   \<and> parse_reply JSON_parse JSON_written (js ''Sure: '' @ lbrace # js ''\"a\":{}'' @ rbrace # js '' ok'')
       = \<lparr>status = 200, body = AnalysisBody (JObject [(js ''a'', JObject [])])\<rparr>"
proof -
  have h: "\<not> fence_anywhere (js ''Sure: '' @ lbrace # js ''\"a\":{}'' @ rbrace # js '' ok'')"
    "lbrace \<notin> set (js ''Sure: '')" "js ''\"a\":{}'' \<noteq> []" "rbrace \<notin> set (js '' ok'')"
    by (simp_all add: pattern_eval)
  have p: "JSON_parse (lbrace # js ''\"a\":{}'' @ [rbrace]) = Some (JObject [(js ''a'', JObject [])])"
    by (simp add: reader_eval js_def lbrace_def rbrace_def)
  have e: "lbrace # js ''\"a\":{}'' @ [rbrace] = js ''{\"a\":{}}''"
    by (simp add: js_def lbrace_def rbrace_def)
  show ?thesis using h C3_brace_span_selected [OF h, of JSON_parse JSON_written] p e by simp
qed

subsection \<open>C4: a reply that does not parse\<close>

text \<open>
  C4, as stated, fails. In the reply \<^verbatim>\<open>null\<close> the pattern finds no candidate, neither a fenced
  block nor a brace span. The handler then parses the whole text, which is valid JSON, and
  answers with status 200 and the value \<^verbatim>\<open>null\<close>, not with status 500.
\<close>

theorem C4_bare_json_counterexample:
  "str_match (js ''null'') = None
   \<and> POST JSON_parse JSON_written (reply_with (js ''null'')) (request_with (js ''data:image/png;base64,AAAA'')) =
       (\<lparr>status = 200, body = AnalysisBody JNull\<rparr>, [JString (js ''data:image/png;base64,AAAA'')])"
  by (simp add: bridge_eval pattern_eval reader_eval)

text \<open>
  C4, amended. For every non-empty reply text of the model, if the string selected for
  parsing (the capture of the pattern, or the whole text when the pattern finds no
  candidate) fails to parse as JSON, the bridge answers with status 500 and the body
  \<^verbatim>\<open>{ "error": "Failed to parse analysis response", "raw": text }\<close> with the text of the model
  unchanged.
\<close>

theorem C4_parse_failure:
  assumes "destructure_image v = Inr (Some img)" and "truthy (Some img)" and "has_slice img"
    and "create img = Inr response" and "analysisText_of response = Some analysisText"
    and "analysisText \<noteq> []"
    and "parse (to_string (jsonString analysisText)) = None"
  shows "POST parse stringify create (Inr v) =
           (\<lparr>status = 500,
             body = ParseFailureBody (js ''Failed to parse analysis response'') analysisText\<rparr>,
            [img])"
  using assms by (simp add: POST_def POST_try_def parse_reply_def)

text \<open>C4, witness: the reply \<^verbatim>\<open>Sorry, I cannot help with that.\<close> of the specification.\<close>

theorem C4_parse_failure_witness:
  "destructure_image (JObject [(js ''image'', JString (js ''data:image/png;base64,AAAA''))])
       = Inr (Some (JString (js ''data:image/png;base64,AAAA'')))
   \<and> truthy (Some (JString (js ''data:image/png;base64,AAAA'')))
   \<and> has_slice (JString (js ''data:image/png;base64,AAAA''))
   \<and> analysisText_of
         \<lparr>choices = [\<lparr>message = Some \<lparr>content = Some (js ''Sorry, I cannot help with that.'')\<rparr>\<rparr>]\<rparr>
       = Some (js ''Sorry, I cannot help with that.'')
   \<and> JSON_parse (to_string (jsonString (js ''Sorry, I cannot help with that.''))) = None
   \<and> POST JSON_parse JSON_written (reply_with (js ''Sorry, I cannot help with that.''))
        (request_with (js ''data:image/png;base64,AAAA'')) =
       (\<lparr>status = 500,
         body = ParseFailureBody (js ''Failed to parse analysis response'')
                  (js ''Sorry, I cannot help with that.'')\<rparr>,
        [JString (js ''data:image/png;base64,AAAA'')])"
proof -
  let ?uri = "js ''data:image/png;base64,AAAA''"
  let ?text = "js ''Sorry, I cannot help with that.''"
  have r: "reply_with ?text (JString ?uri) =
      Inr \<lparr>choices = [\<lparr>message = Some \<lparr>content = Some ?text\<rparr>\<rparr>]\<rparr>"
    by (simp add: reply_with_def)
  have t: "analysisText_of \<lparr>choices = [\<lparr>message = Some \<lparr>content = Some ?text\<rparr>\<rparr>]\<rparr> = Some ?text"
    "?text \<noteq> []"
    by (simp_all add: js_def analysisText_of_def)
  have p: "JSON_parse (to_string (jsonString ?text)) = None"
    by (simp add: to_string_def pattern_eval reader_eval)
  show ?thesis
    using sample_request t p
      C4_parse_failure [where parse = JSON_parse and stringify = JSON_written
          and create = "reply_with ?text",
        OF sample_request r t p]
    by (simp add: request_with_def)
qed

subsection \<open>C5: a reply that parses\<close>

text \<open>
  C5, as stated, fails. The reply \<^verbatim>\<open>{"calories":1e400,"fat":-0}\<close> parses: \<^verbatim>\<open>calories\<close> is
  infinite and \<^verbatim>\<open>fat\<close> is negative zero. \<^verbatim>\<open>NextResponse.json\<close> serialises the parsed value,
  and the body of the answer is \<^verbatim>\<open>{"calories":null,"fat":0}\<close>: it is not the parsed value.
\<close>

theorem C5_infinite_number_counterexample:
  "JSON_parse (js ''{\"calories\":1e400,\"fat\":-0}'') =
     Some (JObject [(js ''calories'', JNumber Infinity), (js ''fat'', JNumber MinusZero)])
   \<and> POST JSON_parse JSON_written (reply_with (js ''{\"calories\":1e400,\"fat\":-0}''))
        (request_with (js ''data:image/png;base64,AAAA'')) =
     (\<lparr>status = 200,
       body = AnalysisBody
         (JObject [(js ''calories'', JNull), (js ''fat'', JNumber (Literal (js ''0'')))])\<rparr>,
      [JString (js ''data:image/png;base64,AAAA'')])"
  by (simp add: bridge_eval pattern_eval reader_eval)

text \<open>
  C5, amended. For every reply of the model from which the selected string parses as JSON,
  the bridge answers with status 200 and, as the body, the serialisation of the parsed
  value, whatever the value is: no field name and no type is checked. The body reads back
  as exactly the parsed value if and only if the value holds no infinite number and no
  negative zero; an infinite number is written as \<^verbatim>\<open>null\<close> and negative zero as \<^verbatim>\<open>0\<close>.
\<close>

theorem C5_parsed_value_returned:
  assumes "destructure_image v = Inr (Some img)" and "truthy (Some img)" and "has_slice img"
    and "create img = Inr response" and "analysisText_of response = Some analysisText"
    and "analysisText \<noteq> []"
    and "parse (to_string (jsonString analysisText)) = Some analysis"
  shows "POST parse JSON_written create (Inr v) =
           (\<lparr>status = 200, body = AnalysisBody (JSON_written analysis)\<rparr>, [img])
         \<and> (JSON_written analysis = analysis \<longleftrightarrow> plain analysis)"
  using assms by (simp add: POST_def POST_try_def parse_reply_def written_plain)

text \<open>
  C5, witness: the fenced reply of the specification is answered with its object, and a
  reply with a \<^verbatim>\<open>healthiness\<close> outside the enumeration and a \<^verbatim>\<open>calories\<close> that is not a number
  is passed through as it is.
\<close>

theorem C5_parsed_value_returned_witness:
  "POST JSON_parse JSON_written (reply_with (fenced ([0x0A] @ apple_json @ [0x0A])))
        (request_with (js ''data:image/png;base64,AAAA'')) =
     (\<lparr>status = 200,
       body = AnalysisBody (JObject
         [(js ''foodName'', JString (js ''Apple'')),
          (js ''calories'', JNumber (Literal (js ''95''))),
          (js ''nutrition'',
             JObject [(js ''carbs'', JNumber (Literal (js ''25''))),
                      (js ''protein'', JNumber (Literal (js ''0''))),
                      (js ''fat'', JNumber (Literal (js ''0'')))]),
          (js ''healthiness'', JString (js ''good'')),
          (js ''suggestions'', JArray [JString (js ''Eat the skin for fiber'')])])\<rparr>,
      [JString (js ''data:image/png;base64,AAAA'')])
   \<and> POST JSON_parse JSON_written
        (reply_with (js ''{\"healthiness\":\"great\",\"calories\":\"lots\"}''))
        (request_with (js ''data:image/png;base64,AAAA'')) =
     (\<lparr>status = 200,
       body = AnalysisBody (JObject
         [(js ''healthiness'', JString (js ''great'')), (js ''calories'', JString (js ''lots''))])\<rparr>,
      [JString (js ''data:image/png;base64,AAAA'')])"
proof -
  let ?uri = "js ''data:image/png;base64,AAAA''"
  let ?apple = "fenced ([0x0A] @ apple_json @ [0x0A])"
  let ?odd = "js ''{\"healthiness\":\"great\",\"calories\":\"lots\"}''"
  let ?apple_value = "JObject
       [(js ''foodName'', JString (js ''Apple'')),
        (js ''calories'', JNumber (Literal (js ''95''))),
        (js ''nutrition'',
           JObject [(js ''carbs'', JNumber (Literal (js ''25''))),
                    (js ''protein'', JNumber (Literal (js ''0''))),
                    (js ''fat'', JNumber (Literal (js ''0'')))]),
        (js ''healthiness'', JString (js ''good'')),
        (js ''suggestions'', JArray [JString (js ''Eat the skin for fiber'')])]"
  let ?odd_value = "JObject
       [(js ''healthiness'', JString (js ''great'')), (js ''calories'', JString (js ''lots''))]"
  have r1: "reply_with ?apple (JString ?uri) =
      Inr \<lparr>choices = [\<lparr>message = Some \<lparr>content = Some ?apple\<rparr>\<rparr>]\<rparr>"
    by (simp add: reply_with_def)
  have t1: "analysisText_of \<lparr>choices = [\<lparr>message = Some \<lparr>content = Some ?apple\<rparr>\<rparr>]\<rparr> = Some ?apple"
    "?apple \<noteq> []"
    by (simp_all add: js_def fenced_def analysisText_of_def)
  have p1: "JSON_parse (to_string (jsonString ?apple)) = Some ?apple_value"
    by (simp only: apple_selected to_string_def option.case apple_parsed)
  have w1: "plain ?apple_value"
    by simp
  have r2: "reply_with ?odd (JString ?uri) =
      Inr \<lparr>choices = [\<lparr>message = Some \<lparr>content = Some ?odd\<rparr>\<rparr>]\<rparr>"
    by (simp add: reply_with_def)
  have t2: "analysisText_of \<lparr>choices = [\<lparr>message = Some \<lparr>content = Some ?odd\<rparr>\<rparr>]\<rparr> = Some ?odd"
    "?odd \<noteq> []"
    by (simp_all add: js_def analysisText_of_def)
  have p2: "JSON_parse (to_string (jsonString ?odd)) = Some ?odd_value"
    by (simp add: to_string_def pattern_eval reader_eval)
  have w2: "plain ?odd_value"
    by simp
  show ?thesis
    using w1 w2
      C5_parsed_value_returned [where parse = JSON_parse and create = "reply_with ?apple",
        OF sample_request r1 t1 p1]
      C5_parsed_value_returned [where parse = JSON_parse and create = "reply_with ?odd",
        OF sample_request r2 t2 p2]
    by (simp add: request_with_def)
qed

subsection \<open>C6: every other failure\<close>



subsection \<open>C7: choosing a file\<close>

text \<open>
  C7. For every file offered to the file input: if its MIME type does not start with
  \<^verbatim>\<open>image/\<close>, it is rejected with the message of the wrong type and nothing else happens;
  otherwise, if its size is over 5 * 1024 * 1024 bytes, it is rejected with the message of
  the size; otherwise the read of the file is started, and when the read has loaded, the
  selected image is the data URL of the file, not \<^verbatim>\<open>null\<close>. In no case does choosing a file
  send a request.
\<close>

theorem C7_file_selection:
  "(\<not> startsWith (ftype f) (js ''image/'') \<longrightarrow>
      handleImageUpload (Some f) s =
        (s\<lparr>error := Some (Text (js ''Please select an image file''))\<rparr>, None))
   \<and> (startsWith (ftype f) (js ''image/'') \<and> fsize f > 5 * 1024 * 1024 \<longrightarrow>
      handleImageUpload (Some f) s =
        (s\<lparr>error := Some (Text (js ''Image size should be less than 5MB''))\<rparr>, None))
   \<and> (startsWith (ftype f) (js ''image/'') \<and> fsize f \<le> 5 * 1024 * 1024 \<longrightarrow>
      handleImageUpload (Some f) s = (s, Some f)
      \<and> (mounted (ui w) \<longrightarrow>
           selectedImage (ui (step (FileLoaded f) (step (ChooseFile (Some f)) w)))
             = Some (data_url f)))
   \<and> requests (step (ChooseFile (Some f)) w) = requests w"
  by (auto simp: handleImageUpload_def reader_onload_def split: prod.splits option.splits)

text \<open>
  C7, witness: a document, an image one byte over the limit, and an image of exactly
  5 MiB chosen on the mounted page.
\<close>

theorem C7_file_selection_witness:
  "\<not> startsWith (ftype pdf) (js ''image/'')
   \<and> handleImageUpload (Some pdf) (ui init) =
       ((ui init)\<lparr>error := Some (Text (js ''Please select an image file''))\<rparr>, None)
   \<and> startsWith (ftype over_limit) (js ''image/'') \<and> fsize over_limit > 5 * 1024 * 1024
   \<and> handleImageUpload (Some over_limit) (ui init) =
       ((ui init)\<lparr>error := Some (Text (js ''Image size should be less than 5MB''))\<rparr>, None)
   \<and> startsWith (ftype at_limit) (js ''image/'') \<and> fsize at_limit \<le> 5 * 1024 * 1024
   \<and> mounted (ui (step Mount init))
   \<and> selectedImage
        (ui (step (FileLoaded at_limit) (step (ChooseFile (Some at_limit)) (step Mount init))))
       = Some (js ''data:image/png;base64,DDDD'')"
proof -
  have h: "\<not> startsWith (ftype pdf) (js ''image/'')"
    "startsWith (ftype over_limit) (js ''image/'')" "fsize over_limit > 5 * 1024 * 1024"
    "startsWith (ftype at_limit) (js ''image/'')" "fsize at_limit \<le> 5 * 1024 * 1024"
    "mounted (ui (step Mount init))"
    by (simp_all add: startsWith_def pdf_def over_limit_def at_limit_def js_def init_def)
  have d: "data_url at_limit = js ''data:image/png;base64,DDDD''"
    by (simp add: at_limit_def)
  show ?thesis
    using h d C7_file_selection [of pdf "ui init" init]
      C7_file_selection [of over_limit "ui init" init]
      C7_file_selection [of at_limit "ui init" "step Mount init"]
    by simp
qed

subsection \<open>C8: a new capture and the previous result\<close>

text \<open>
  C8, as stated, fails in its conclusion. On the mounted page an image is chosen and loaded
  and its analysis is started; while the request is in flight a second image is chosen
  and loaded. When the request ends, its answer, a result of the declared shape, is
  stored: the page then shows the second image together with a result that belongs to the
  first.
\<close>

theorem C8_stale_result_counterexample:
  "is_AnalysisResult apple_result
   \<and> selectedImage (ui (run [Mount, ChooseFile (Some png), FileLoaded png, ClickAnalyze,
        ChooseFile (Some jpg), FileLoaded jpg, FetchDone (answer apple_result)] init))
     = Some (data_url jpg)
   \<and> analysisResult (ui (run [Mount, ChooseFile (Some png), FileLoaded png, ClickAnalyze,
        ChooseFile (Some jpg), FileLoaded jpg, FetchDone (answer apple_result)] init))
     = Some apple_result
   \<and> result_image (run [Mount, ChooseFile (Some png), FileLoaded png, ClickAnalyze,
        ChooseFile (Some jpg), FileLoaded jpg, FetchDone (answer apple_result)] init)
     = Some (data_url png)
   \<and> data_url png \<noteq> data_url jpg"
  by (simp add: client_eval png_def jpg_def answer_def analyze_try_def nullable_def js_def
      apple_result_def is_AnalysisResult_def is_number_def is_string_def get_property_def)

text \<open>
  C8, amended. Every capture that sets a new image (a read that has loaded, or a camera
  shot that is not empty) clears the previous result and the previous error in the same
  step, and sends no request. A result on display belongs to the image on display unless
  a capture set an image while the request that produced that result was in flight.
\<close>

theorem C8_capture_clears:
  "reader_onload r s = s\<lparr>selectedImage := Some r, analysisResult := None, error := None\<rparr>
   \<and> (imageSrc \<noteq> [] \<longrightarrow>
        captureImage (Some (Some imageSrc)) s =
          s\<lparr>selectedImage := Some imageSrc, analysisResult := None, error := None,
            showCamera := False\<rparr>)
   \<and> (is_capture e \<longrightarrow> requests (step e w) = requests w)
   \<and> (analysisResult (ui (run es init)) \<noteq> None \<and> \<not> stale (trace es init no_history) \<longrightarrow>
        result_image (run es init) = selectedImage (ui (run es init)))"
proof -
  have "is_capture e \<longrightarrow> requests (step e w) = requests w"
    by (cases e) auto
  moreover have "analysisResult (ui (run es init)) \<noteq> None \<and> \<not> stale (trace es init no_history) \<longrightarrow>
        result_image (run es init) = selectedImage (ui (run es init))"
    using fresh_run [OF fresh_init, of es] by (simp add: fresh_def)
  ultimately show ?thesis
    by (simp add: reader_onload_def captureImage_def)
qed

text \<open>
  C8, witness: a camera shot replaces an image with its result and its error. Then a run
  in which the first request is overtaken by a second image, so that its result is
  stale; a third image is chosen and analysed with nothing in between, and the result on
  display is not stale and belongs to the third image.
\<close>

theorem C8_capture_clears_witness:
  "js ''data:image/jpeg;base64,FFFF'' \<noteq> []
   \<and> captureImage (Some (Some (js ''data:image/jpeg;base64,FFFF'')))
        \<lparr>selectedImage = Some (data_url png), analysisResult = Some apple_result,
         isAnalyzing = False, error = Some (Text (js ''Please select an image file'')),
         showCamera = True, mounted = True\<rparr> =
       \<lparr>selectedImage = Some (js ''data:image/jpeg;base64,FFFF''), analysisResult = None,
        isAnalyzing = False, error = None, showCamera = False, mounted = True\<rparr>
   \<and> is_capture (FileLoaded png)
   \<and> stale (trace
        [Mount, ChooseFile (Some png), FileLoaded png, ClickAnalyze,
         ChooseFile (Some jpg), FileLoaded jpg, FetchDone (answer apple_result)] init no_history)
   \<and> \<not> stale (trace
        [Mount, ChooseFile (Some png), FileLoaded png, ClickAnalyze,
         ChooseFile (Some jpg), FileLoaded jpg, FetchDone (answer apple_result),
         ChooseFile (Some at_limit), FileLoaded at_limit, ClickAnalyze,
         FetchDone (answer apple_result)] init no_history)
   \<and> analysisResult (ui (run
        [Mount, ChooseFile (Some png), FileLoaded png, ClickAnalyze,
         ChooseFile (Some jpg), FileLoaded jpg, FetchDone (answer apple_result),
         ChooseFile (Some at_limit), FileLoaded at_limit, ClickAnalyze,
         FetchDone (answer apple_result)] init)) = Some apple_result
   \<and> result_image (run
        [Mount, ChooseFile (Some png), FileLoaded png, ClickAnalyze,
         ChooseFile (Some jpg), FileLoaded jpg, FetchDone (answer apple_result),
         ChooseFile (Some at_limit), FileLoaded at_limit, ClickAnalyze,
         FetchDone (answer apple_result)] init) = Some (data_url at_limit)
   \<and> selectedImage (ui (run
        [Mount, ChooseFile (Some png), FileLoaded png, ClickAnalyze,
         ChooseFile (Some jpg), FileLoaded jpg, FetchDone (answer apple_result),
         ChooseFile (Some at_limit), FileLoaded at_limit, ClickAnalyze,
         FetchDone (answer apple_result)] init)) = Some (data_url at_limit)"
proof -
  let ?first = "[Mount, ChooseFile (Some png), FileLoaded png, ClickAnalyze,
         ChooseFile (Some jpg), FileLoaded jpg, FetchDone (answer apple_result)]"
  let ?es = "[Mount, ChooseFile (Some png), FileLoaded png, ClickAnalyze,
         ChooseFile (Some jpg), FileLoaded jpg, FetchDone (answer apple_result),
         ChooseFile (Some at_limit), FileLoaded at_limit, ClickAnalyze,
         FetchDone (answer apple_result)]"
  let ?s = "\<lparr>selectedImage = Some (data_url png), analysisResult = Some apple_result,
         isAnalyzing = False, error = Some (Text (js ''Please select an image file'')),
         showCamera = True, mounted = True\<rparr>"
  note ev = client_eval history_eval png_def jpg_def at_limit_def answer_def analyze_try_def
    nullable_def js_def apple_result_def
  note clears = C8_capture_clears [of "data_url png" ?s "js ''data:image/jpeg;base64,FFFF''"
      "FileLoaded png" init ?es]
  have ne: "js ''data:image/jpeg;base64,FFFF'' \<noteq> []"
    by (simp add: js_def)
  have shot: "captureImage (Some (Some (js ''data:image/jpeg;base64,FFFF''))) ?s =
       \<lparr>selectedImage = Some (js ''data:image/jpeg;base64,FFFF''), analysisResult = None,
        isAnalyzing = False, error = None, showCamera = False, mounted = True\<rparr>"
    using clears [THEN conjunct2, THEN conjunct1, THEN mp, OF ne] by simp
  have cap: "is_capture (FileLoaded png)"
    by simp
  have st: "stale (trace ?first init no_history)"
    by (simp add: ev)
  have ns: "\<not> stale (trace ?es init no_history)"
    by (simp add: ev)
  have a: "analysisResult (ui (run ?es init)) = Some apple_result"
    by (simp add: ev)
  have i: "selectedImage (ui (run ?es init)) = Some (data_url at_limit)"
    by (simp add: ev)
  have shown: "analysisResult (ui (run ?es init)) \<noteq> None \<and> \<not> stale (trace ?es init no_history)"
    by (rule conjI) (simp only: a option.distinct not_False_eq_True, rule ns)
  have r: "result_image (run ?es init) = Some (data_url at_limit)"
    using clears [THEN conjunct2, THEN conjunct2, THEN conjunct2, THEN mp, OF shown]
    by (simp only: i)
  show ?thesis
    by (intro conjI) (rule ne shot cap st ns a r i)+
qed

subsection \<open>C9: one request at a time\<close>

text \<open>
  C9. In every state the page can reach, at most one request is in flight, and one is in
  flight exactly when the flag \<^verbatim>\<open>isAnalyzing\<close> is set; while the flag is set the button is
  disabled and a click on it changes nothing, so no second request is sent; and when the
  request ends, with a result or with a failure, the flag is cleared.
\<close>

theorem C9_single_request:
  "length (requests (run es init)) \<le> 1
   \<and> (isAnalyzing (ui (run es init)) \<longleftrightarrow> requests (run es init) \<noteq> [])
   \<and> (isAnalyzing (ui (run es init)) \<longrightarrow>
        \<not> analyze_enabled (ui (run es init)) \<and> step ClickAnalyze (run es init) = run es init)
   \<and> \<not> isAnalyzing (ui (step (FetchDone outcome) (run es init)))"
proof -
  have inv: "one_in_flight (run es init)"
    by (rule one_in_flight_run [OF one_in_flight_init])
  have "length (requests (run es init)) \<le> 1"
    using inv by (auto simp: one_in_flight_def)
  moreover have "isAnalyzing (ui (run es init)) \<longleftrightarrow> requests (run es init) \<noteq> []"
    using inv by (auto simp: one_in_flight_def)
  moreover have "isAnalyzing (ui (run es init)) \<longrightarrow>
        \<not> analyze_enabled (ui (run es init)) \<and> step ClickAnalyze (run es init) = run es init"
    by (simp add: analyze_enabled_def)
  moreover have "\<not> isAnalyzing (ui (step (FetchDone outcome) (run es init)))"
    using inv by (auto simp: one_in_flight_def handleAnalyze_resume_def split: sum.splits)
  ultimately show ?thesis by blast
qed

text \<open>
  C9, witness: after the click on the button the flag is set and the request is in flight;
  a second click changes nothing; the flag is cleared when the request ends with an answer
  and when it ends because the network is down.
\<close>

theorem C9_single_request_witness:
  "isAnalyzing (ui (run [Mount, ChooseFile (Some png), FileLoaded png, ClickAnalyze] init))
   \<and> requests (run [Mount, ChooseFile (Some png), FileLoaded png, ClickAnalyze] init)
       = [data_url png]
   \<and> requests (run [Mount, ChooseFile (Some png), FileLoaded png, ClickAnalyze, ClickAnalyze] init)
       = [data_url png]
   \<and> \<not> isAnalyzing (ui (step (FetchDone (answer apple_result))
         (run [Mount, ChooseFile (Some png), FileLoaded png, ClickAnalyze] init)))
   \<and> \<not> isAnalyzing (ui (step (FetchDone network_down)
         (run [Mount, ChooseFile (Some png), FileLoaded png, ClickAnalyze] init)))"
proof -
  let ?es = "[Mount, ChooseFile (Some png), FileLoaded png, ClickAnalyze]"
  have f: "isAnalyzing (ui (run ?es init))"
    by (simp add: client_eval png_def js_def)
  have r: "requests (run ?es init) = [data_url png]"
    by (simp add: client_eval png_def js_def)
  have again: "run (?es @ [ClickAnalyze]) init = step ClickAnalyze (run ?es init)"
    by simp
  show ?thesis
    using f r again
      C9_single_request [of ?es "answer apple_result"]
      C9_single_request [of ?es network_down]
    by simp
qed

subsection \<open>C10: a rejected file changes only the error\<close>

text \<open>
  C10. For every file that fails the checks (a type that does not start with \<^verbatim>\<open>image/\<close>, or
  a size over 5 MiB), choosing it changes the error message and nothing else: the selected
  image and the result on display stay as they were, and no read is started.
\<close>

theorem C10_failed_selection_frame:
  assumes "\<not> startsWith (ftype f) (js ''image/'') \<or> fsize f > 5 * 1024 * 1024"
  shows "handleImageUpload (Some f) s =
           (s\<lparr>error :=
                Some (Text (if \<not> startsWith (ftype f) (js ''image/'')
                            then js ''Please select an image file''
                            else js ''Image size should be less than 5MB''))\<rparr>, None)
         \<and> selectedImage (fst (handleImageUpload (Some f) s)) = selectedImage s
         \<and> analysisResult (fst (handleImageUpload (Some f) s)) = analysisResult s"
  using assms by (auto simp: handleImageUpload_def)

text \<open>C10, witness: a document chosen while an image and its result are on display.\<close>

theorem C10_failed_selection_frame_witness:
  "\<not> startsWith (ftype pdf) (js ''image/'')
   \<and> handleImageUpload (Some pdf)
        \<lparr>selectedImage = Some (data_url png), analysisResult = Some apple_result,
         isAnalyzing = False, error = None, showCamera = False, mounted = True\<rparr> =
       (\<lparr>selectedImage = Some (data_url png), analysisResult = Some apple_result,
         isAnalyzing = False, error = Some (Text (js ''Please select an image file'')),
         showCamera = False, mounted = True\<rparr>, None)"
proof -
  have h: "\<not> startsWith (ftype pdf) (js ''image/'') \<or> fsize pdf > 5 * 1024 * 1024"
    by (simp add: startsWith_def pdf_def js_def)
  have t: "\<not> startsWith (ftype pdf) (js ''image/'')"
    by (simp add: startsWith_def pdf_def js_def)
  show ?thesis
    using t C10_failed_selection_frame [OF h,
        of "\<lparr>selectedImage = Some (data_url png), analysisResult = Some apple_result,
         isAnalyzing = False, error = None, showCamera = False, mounted = True\<rparr>"]
    by simp
qed

end
